theory Spec2Isabelle
  imports Complex_Main
begin

section \<open>Data model (types.ts)\<close>

text \<open>
  JavaScript numbers are modelled as follows: cell coordinates, score, level and the step
  counters are integers (\<open>int\<close>); rewards, action values and the exploration rate are
  real numbers (the IEEE doubles of the source are idealised, so rounding is not modelled).
\<close>

datatype Point = Point (px: int) (py: int)

datatype Direction = UP | DOWN | LEFT | RIGHT

datatype ItemType = FOOD | GOLD | SCISSORS | ICE

datatype error = TypeError | SyntaxError

record SpecialItem =
  point :: Point
  type :: ItemType
  expires :: int

record GameState =
  snake :: "Point list"
  food :: Point
  specialItems :: "SpecialItem list"
  walls :: "Point list"
  score :: int
  level :: int
  itemsCollectedInLevel :: int
  isGameOver :: bool
  steps :: int
  slowEffectSteps :: int
  portalOpen :: bool
  portalPoint :: "Point option"

text \<open>
  The class \<open>SnakeGame\<close>: the public episode state and the private 30 x 30 lookup table
  \<open>wallMap\<close>, indexed \<open>wallMap[y][x]\<close>. \<open>maxSteps\<close> is a constant of the class.
\<close>

record SnakeGame =
  state :: GameState
  wallMap :: "bool list list"

definition GRID_SIZE :: int where
  "GRID_SIZE = 30"

definition LEVEL_GOAL :: int where
  "LEVEL_GOAL = 10"

definition maxSteps :: int where
  "maxSteps = 3000"

section \<open>The ambient random source\<close>

text \<open>
  \<open>Math.random()\<close> is global state. It is modelled by an arbitrary sequence of reals
  together with a cursor (the number of draws made so far); every function that draws
  returns the advanced cursor. A draw is the fractional part of the sequence's entry, so it
  always lies in \<open>[0, 1)\<close>, as \<open>Math.random()\<close> guarantees.
\<close>

type_synonym rng = "nat \<Rightarrow> real"

definition Math_random :: "rng \<Rightarrow> nat \<Rightarrow> real" where
  "Math_random rnd c = frac (rnd c)"

text \<open>\<open>Math.floor(Math.random() * k)\<close>\<close>

definition randomIndex :: "rng \<Rightarrow> nat \<Rightarrow> int \<Rightarrow> int" where
  "randomIndex rnd c k = \<lfloor>Math_random rnd c * real_of_int k\<rfloor>"

section \<open>SnakeGame.ts\<close>

subsection \<open>Obstacle generation\<close>

text \<open>
  The value \<open>Math.abs(Math.sin(seed + i * 12.9898 + j * 78.233) * 43758.5453) % 1\<close> with
  \<open>seed = level * 1.618\<close>, over the reals. For a non-negative number \<open>% 1\<close> is the
  fractional part.
\<close>

definition sinVal :: "int \<Rightarrow> int \<Rightarrow> int \<Rightarrow> real" where
  "sinVal lvl i j =
     frac \<bar>sin (real_of_int lvl * 1.618 + real_of_int i * 12.9898 + real_of_int j * 78.233)
            * 43758.5453\<bar>"

definition maxDensity :: real where
  "maxDensity = 0.15"

definition density :: "int \<Rightarrow> real" where
  "density lvl = min maxDensity (0.05 + real_of_int lvl * 0.0001)"

text \<open>\<open>getLevelWalls\<close>. The loops push in the order of the source.\<close>

definition getLevelWalls :: "int \<Rightarrow> Point list" where
  "getLevelWalls lvl =
     (if lvl = 2 then
        concat (map (\<lambda>i. [Point i 10, Point i 20] @
                           (if i > 10 \<and> i < 20 \<and> i \<noteq> 15 then [Point 10 i, Point 20 i] else []))
                    [10..19])
      else if lvl = 3 then
        concat (map (\<lambda>i. [Point 15 i, Point 15 (GRID_SIZE - i - 1),
                           Point i 15, Point (GRID_SIZE - i - 1) 15])
                    [0..11])
      else if lvl \<ge> 4 then
        concat (map (\<lambda>i. concat (map (\<lambda>j.
                  if \<bar>i - 15\<bar> < 3 \<and> \<bar>j - 15\<bar> < 3 then []
                  else if sinVal lvl i j < density lvl then [Point i j] else [])
                [0..GRID_SIZE - 1]))
              [0..GRID_SIZE - 1])
      else [])"

subsection \<open>The wall lookup table\<close>

definition inBoard :: "int \<Rightarrow> int \<Rightarrow> bool" where
  "inBoard a b = (0 \<le> a \<and> a < GRID_SIZE \<and> 0 \<le> b \<and> b < GRID_SIZE)"

text \<open>\<open>this.wallMap[y][x]\<close> for a cell of the board.\<close>

definition wallAt :: "bool list list \<Rightarrow> int \<Rightarrow> int \<Rightarrow> bool" where
  "wallAt wm a b = wm ! nat b ! nat a"

definition emptyWallMap :: "bool list list" where
  "emptyWallMap = replicate (nat GRID_SIZE) (replicate (nat GRID_SIZE) False)"

definition markWall :: "Point \<Rightarrow> bool list list \<Rightarrow> bool list list" where
  "markWall w wm =
     (if px w \<ge> 0 \<and> px w < GRID_SIZE \<and> py w \<ge> 0 \<and> py w < GRID_SIZE
      then wm[nat (py w) := (wm ! nat (py w))[nat (px w) := True]]
      else wm)"

text \<open>\<open>isPointWall\<close>\<close>

definition isPointWall :: "SnakeGame \<Rightarrow> int \<Rightarrow> int \<Rightarrow> bool" where
  "isPointWall g a b =
     (if a < 0 \<or> a \<ge> GRID_SIZE \<or> b < 0 \<or> b \<ge> GRID_SIZE then True
      else wallAt (wallMap g) a b)"

subsection \<open>Random open-cell selection\<close>

text \<open>
  The sampling loop of \<open>getRandomEmptyPoint\<close>: \<open>Some p\<close> when the loop returns the
  sampled cell \<open>p\<close>, \<open>None\<close> when all 500 attempts failed. Each attempt makes two draws.
  A sampled cell is always on the board, so the table lookup is in range.
\<close>

function sampleLoop ::
  "rng \<Rightarrow> bool list list \<Rightarrow> Point list \<Rightarrow> SpecialItem list \<Rightarrow> nat \<Rightarrow> nat \<Rightarrow> Point option \<times> nat"
where
  "sampleLoop rnd wm snk otherItems attempts c =
     (if attempts < 500 then
        (let p = Point (randomIndex rnd c GRID_SIZE) (randomIndex rnd (c + 1) GRID_SIZE) in
         if wallAt wm (px p) (py p) then sampleLoop rnd wm snk otherItems (attempts + 1) (c + 2)
         else if p \<in> set snk then sampleLoop rnd wm snk otherItems (attempts + 1) (c + 2)
         else if p \<in> set (map point otherItems)
           then sampleLoop rnd wm snk otherItems (attempts + 1) (c + 2)
         else (Some p, c + 2))
      else (None, c))"
  by pat_completeness auto
termination
  by (relation "measure (\<lambda>(rnd, wm, snk, otherItems, attempts, c). 500 - attempts)") auto

declare sampleLoop.simps [simp del]

text \<open>\<open>getRandomEmptyPoint\<close>: the sampled cell, or the fallback \<open>(0, 0)\<close> on exhaustion.\<close>

definition getRandomEmptyPoint ::
  "rng \<Rightarrow> nat \<Rightarrow> bool list list \<Rightarrow> Point list \<Rightarrow> SpecialItem list \<Rightarrow> Point \<times> nat"
where
  "getRandomEmptyPoint rnd c wm snk otherItems =
     (case sampleLoop rnd wm snk otherItems 0 c of
        (Some p, c') \<Rightarrow> (p, c')
      | (None, c') \<Rightarrow> (Point 0 0, c'))"

subsection \<open>Construction and level change\<close>

definition spawnSnake :: "Point list" where
  "spawnSnake = [Point 15 15, Point 15 16, Point 15 17]"

definition getInitialState :: "int \<Rightarrow> GameState" where
  "getInitialState lvl =
     \<lparr> snake = spawnSnake, food = Point 0 0, specialItems = [],
       walls = getLevelWalls lvl, score = 0, level = lvl,
       itemsCollectedInLevel = 0, isGameOver = False, steps = 0, slowEffectSteps = 0,
       portalOpen = False, portalPoint = None \<rparr>"

text \<open>
  \<open>updateWallMap\<close>: clear the table, mark every wall that lies on the board, then place the
  goal with \<open>getRandomEmptyPoint(snake, walls)\<close> (no other occupants are named).
\<close>

definition updateWallMap :: "rng \<Rightarrow> nat \<Rightarrow> SnakeGame \<Rightarrow> SnakeGame \<times> nat" where
  "updateWallMap rnd c g =
     (let wm = fold markWall (walls (state g)) emptyWallMap;
          (p, c') = getRandomEmptyPoint rnd c wm (snake (state g)) []
      in (g\<lparr> state := (state g)\<lparr> food := p \<rparr>, wallMap := wm \<rparr>, c'))"

definition newSnakeGame :: "rng \<Rightarrow> nat \<Rightarrow> int \<Rightarrow> SnakeGame \<times> nat" where
  "newSnakeGame rnd c lvl =
     updateWallMap rnd c \<lparr> state = getInitialState lvl, wallMap = emptyWallMap \<rparr>"

definition advanceLevel :: "rng \<Rightarrow> nat \<Rightarrow> SnakeGame \<Rightarrow> SnakeGame \<times> nat" where
  "advanceLevel rnd c g =
     (let s = state g in
      updateWallMap rnd c
        (g\<lparr> state := s\<lparr> level := level s + 1, itemsCollectedInLevel := 0,
                         portalOpen := False, portalPoint := None,
                         walls := getLevelWalls (level s + 1),
                         specialItems := [], steps := 0, snake := spawnSnake \<rparr> \<rparr>))"

subsection \<open>One simulation step\<close>

definition movePoint :: "Direction \<Rightarrow> Point \<Rightarrow> Point" where
  "movePoint direction h =
     (case direction of
        UP \<Rightarrow> Point (px h) (py h - 1)
      | DOWN \<Rightarrow> Point (px h) (py h + 1)
      | LEFT \<Rightarrow> Point (px h - 1) (py h)
      | RIGHT \<Rightarrow> Point (px h + 1) (py h))"

text \<open>The search loop for \<open>pickedItemIndex\<close>: the first item on the cell, if any.\<close>

fun pickedItemIndex :: "SpecialItem list \<Rightarrow> Point \<Rightarrow> nat option" where
  "pickedItemIndex [] h = None"
| "pickedItemIndex (si # rest) h =
     (if point si = h then Some 0 else map_option Suc (pickedItemIndex rest h))"

text \<open>\<open>k\<close> calls of \<open>pop()\<close>; popping an empty array does nothing.\<close>

definition popN :: "nat \<Rightarrow> 'a list \<Rightarrow> 'a list" where
  "popN k xs = (butlast ^^ k) xs"

text \<open>
  The \<open>switch (item.type)\<close> on the working triple (state, new body, reward). The type
  \<open>FOOD\<close> has no case in the source.
\<close>

definition applyItem ::
  "SpecialItem \<Rightarrow> GameState \<times> Point list \<times> real \<Rightarrow> GameState \<times> Point list \<times> real"
where
  "applyItem item t =
     (case t of (s, newSnake, reward) \<Rightarrow>
        (case type item of
           GOLD \<Rightarrow> (s\<lparr> score := score s + 15 \<rparr>, newSnake, 60)
         | SCISSORS \<Rightarrow>
             (let reduceAmount = max 0 (int (length newSnake) - 5)
              in (s\<lparr> score := score s + 5 \<rparr>, popN (nat (min 3 reduceAmount)) newSnake, 40))
         | ICE \<Rightarrow> (s\<lparr> score := score s + 2, slowEffectSteps := 20 \<rparr>, newSnake, 15)
         | FOOD \<Rightarrow> (s, newSnake, reward)))"

text \<open>Item consumption: splice the picked item out, then apply its effect.\<close>

definition pickItem ::
  "Point \<Rightarrow> GameState \<times> Point list \<times> real \<Rightarrow> GameState \<times> Point list \<times> real"
where
  "pickItem head t =
     (case t of (s, newSnake, reward) \<Rightarrow>
        (case pickedItemIndex (specialItems s) head of
           None \<Rightarrow> t
         | Some i \<Rightarrow>
             applyItem (specialItems s ! i)
               (s\<lparr> specialItems := take i (specialItems s) @ drop (Suc i) (specialItems s) \<rparr>,
                newSnake, reward)))"

text \<open>
  Goal consumption, or the tail drop when the goal was not reached. The \<open>walls\<close> argument
  that the source passes to \<open>getRandomEmptyPoint\<close> is not read there (the lookup table is).
\<close>

definition consumeGoal ::
  "rng \<Rightarrow> nat \<Rightarrow> bool list list \<Rightarrow> Point \<Rightarrow> GameState \<times> Point list \<times> real
     \<Rightarrow> (GameState \<times> Point list \<times> real) \<times> nat"
where
  "consumeGoal rnd c wm head t =
     (case t of (s, newSnake, reward) \<Rightarrow>
        if head = food s then
          (let s3 = s\<lparr> score := score s + 1,
                        itemsCollectedInLevel := itemsCollectedInLevel s + 1 \<rparr>;
               (s4, c1) =
                 (if itemsCollectedInLevel s3 \<ge> LEVEL_GOAL \<and> \<not> portalOpen s3 then
                    (let (p, c') = getRandomEmptyPoint rnd c wm newSnake (specialItems s3)
                     in (s3\<lparr> portalOpen := True, portalPoint := Some p \<rparr>, c'))
                  else (s3, c));
               (f, c2) = getRandomEmptyPoint rnd c1 wm newSnake (specialItems s4)
           in ((s4\<lparr> food := f \<rparr>, newSnake, 30), c2))
        else ((s, butlast newSnake, reward), c))"

definition itemTypes :: "ItemType list" where
  "itemTypes = [GOLD, SCISSORS, ICE]"

text \<open>
  The periodic item spawn. \<open>Math.random() < 0.3\<close> is only evaluated when the step counter
  is a multiple of 75, and the type and the cell are only drawn when all three tests pass.
\<close>

definition spawnItem ::
  "rng \<Rightarrow> nat \<Rightarrow> bool list list \<Rightarrow> Point list \<Rightarrow> GameState \<Rightarrow> GameState \<times> nat"
where
  "spawnItem rnd c wm newSnake s =
     (if steps s mod 75 = 0 then
        (if Math_random rnd c < 0.3 \<and> length (specialItems s) < 3 then
           (let ty = itemTypes ! nat (randomIndex rnd (c + 1) 3);
                (p, c') = getRandomEmptyPoint rnd (c + 2) wm newSnake (specialItems s)
            in (s\<lparr> specialItems :=
                      specialItems s @ [\<lparr> point = p, type = ty, expires = steps s + 150 \<rparr>] \<rparr>,
                c'))
         else (s, c + 1))
      else (s, c))"

text \<open>The counters at the start of a step: \<open>steps++\<close>, and \<open>slowEffectSteps--\<close> if positive.\<close>

definition tick :: "GameState \<Rightarrow> GameState" where
  "tick s0 =
     s0\<lparr> steps := steps s0 + 1,
         slowEffectSteps :=
           (if slowEffectSteps s0 > 0 then slowEffectSteps s0 - 1 else slowEffectSteps s0) \<rparr>"

text \<open>
  The death check on the candidate head, with the short-circuit of the source: the table is
  only read for a cell of the board.
\<close>

definition deathCheck :: "SnakeGame \<Rightarrow> GameState \<Rightarrow> Point \<Rightarrow> bool" where
  "deathCheck g s1 head =
     (if px head < 0 \<or> px head \<ge> GRID_SIZE \<or> py head < 0 \<or> py head \<ge> GRID_SIZE then True
      else wallAt (wallMap g) (px head) (py head) \<or> head \<in> set (snake s1) \<or>
           steps s1 > maxSteps + score s1 * 50)"

text \<open>
  \<open>step\<close>: the reward, the game after the step and the advanced cursor. On an empty body
  \<open>head\<close> has no coordinates, every comparison of the death check is false and the table
  lookup \<open>this.wallMap[head.y][head.x]\<close> throws a \<open>TypeError\<close>.
\<close>

definition step :: "rng \<Rightarrow> nat \<Rightarrow> Direction \<Rightarrow> SnakeGame \<Rightarrow> error + (real \<times> SnakeGame \<times> nat)" where
  "step rnd c direction g =
     (if isGameOver (state g) then Inr (- 20, g, c)
      else
        (let s1 = tick (state g)
         in case snake s1 of
              [] \<Rightarrow> Inl TypeError
            | h0 # body \<Rightarrow>
                (let head = movePoint direction h0 in
                 if deathCheck g s1 head
                 then Inr (- 100, g\<lparr> state := s1\<lparr> isGameOver := True \<rparr> \<rparr>, c)
                 else if portalOpen s1 \<and> portalPoint s1 = Some head then
                   (let (g', c') = advanceLevel rnd c (g\<lparr> state := s1 \<rparr>)
                    in Inr (250, g', c'))
                 else
                   (let t1 = pickItem head (s1, head # snake s1, - 0.05);
                        ((s2, newSnake, reward), c1) = consumeGoal rnd c (wallMap g) head t1;
                        (s3, c2) = spawnItem rnd c1 (wallMap g) newSnake s2;
                        s4 = s3\<lparr> specialItems :=
                                    filter (\<lambda>i. expires i > steps s3) (specialItems s3),
                                  snake := newSnake \<rparr>
                    in Inr (reward, g\<lparr> state := s4 \<rparr>, c2)))))"

text \<open>Replaying a list of moves; an exception ends the replay.\<close>

fun play :: "rng \<Rightarrow> Direction list \<Rightarrow> SnakeGame \<Rightarrow> nat \<Rightarrow> error + (SnakeGame \<times> nat)" where
  "play rnd [] g c = Inr (g, c)"
| "play rnd (d # ds) g c =
     (case step rnd c d g of
        Inl e \<Rightarrow> Inl e
      | Inr (r, g', c') \<Rightarrow> play rnd ds g' c')"

text \<open>The score that the \<open>switch\<close> adds for the item picked up on a cell, 0 without a pickup.\<close>

definition pickupScore :: "SpecialItem list \<Rightarrow> Point \<Rightarrow> int" where
  "pickupScore items h =
     (case pickedItemIndex items h of
        None \<Rightarrow> 0
      | Some i \<Rightarrow>
          (case type (items ! i) of GOLD \<Rightarrow> 15 | SCISSORS \<Rightarrow> 5 | ICE \<Rightarrow> 2 | FOOD \<Rightarrow> 0))"

text \<open>A cell of the board that is neither an obstacle nor on the given body.\<close>

definition openCell :: "bool list list \<Rightarrow> Point list \<Rightarrow> Point \<Rightarrow> bool" where
  "openCell wm snk p =
     (inBoard (px p) (py p) \<and> \<not> wallAt wm (px p) (py p) \<and> p \<notin> set snk)"

text \<open>
  The outcome of the random open-cell selection that starts at cursor \<open>c\<close>: the cell is the
  accepted sample, which is then an open cell off the listed items, or it is the fallback
  \<open>(0, 0)\<close> and all 500 samples were rejected.
\<close>

definition placed ::
  "rng \<Rightarrow> nat \<Rightarrow> bool list list \<Rightarrow> Point list \<Rightarrow> SpecialItem list \<Rightarrow> Point \<Rightarrow> bool"
where
  "placed rnd c wm snk otherItems p =
     ((fst (sampleLoop rnd wm snk otherItems 0 c) = None \<and> p = Point 0 0) \<or>
      (fst (sampleLoop rnd wm snk otherItems 0 c) = Some p \<and> openCell wm snk p \<and>
       p \<notin> set (map point otherItems)))"

section \<open>QLearningAgent.ts\<close>

text \<open>
  The agent. The value table is a map from fingerprints to value vectors. The learning rate,
  the discount factor, the floor and the decay factor of the exploration rate are fields
  that are initialised once and never assigned, so they are constants here. Value vectors
  are lists; every vector that \<open>getQValues\<close> creates has length 4 (for an empty vector
  \<open>Math.max()\<close> would be \<open>-Infinity\<close>, which the reals here do not have).
\<close>

record QLearningAgent =
  qTable :: "string \<rightharpoonup> real list"
  epsilon :: real
  game :: SnakeGame
  totalReward :: real
  totalStepsEver :: int

definition alpha :: real where
  "alpha = 0.25"

definition gamma :: real where
  "gamma = 0.95"

definition epsilonMin :: real where
  "epsilonMin = 0.01"

definition epsilonDecay :: real where
  "epsilonDecay = 0.999997"

subsection \<open>State fingerprint\<close>

text \<open>The navigation target: \<open>portalOpen ? portalPoint! : food\<close> (\<open>None\<close> is \<open>null\<close>).\<close>

definition activeTarget :: "GameState \<Rightarrow> Point option" where
  "activeTarget s = (if portalOpen s then portalPoint s else Some (food s))"

definition isBlocking :: "SnakeGame \<Rightarrow> Point list \<Rightarrow> int \<Rightarrow> int \<Rightarrow> bool" where
  "isBlocking g snk a b =
     (if a < 0 \<or> a \<ge> GRID_SIZE \<or> b < 0 \<or> b \<ge> GRID_SIZE then True
      else if isPointWall g a b then True
      else Point a b \<in> set snk)"

definition flag :: "bool \<Rightarrow> string" where
  "flag b = (if b then ''1'' else ''0'')"

definition headingOf :: "Point list \<Rightarrow> string" where
  "headingOf snk =
     (case snk of
        head # neck # rest \<Rightarrow>
          (if px head > px neck then ''R''
           else if px head < px neck then ''L''
           else if py head > py neck then ''D''
           else if py head < py neck then ''U''
           else ''N'')
      | _ \<Rightarrow> ''N'')"

text \<open>
  \<open>getStateString\<close>. It reads the game and returns a string; it makes no draw and assigns
  nothing. Reading a coordinate of a missing head or of a \<open>null\<close> target throws.
\<close>

definition getStateString :: "SnakeGame \<Rightarrow> error + string" where
  "getStateString g =
     (case snake (state g) of
        [] \<Rightarrow> Inl TypeError
      | head # rest \<Rightarrow>
          (case activeTarget (state g) of
             None \<Rightarrow> Inl TypeError
           | Some target \<Rightarrow>
               (let snk = snake (state g);
                    tX = (if px target < px head then ''L''
                          else if px target > px head then ''R'' else ''C'');
                    tY = (if py target < py head then ''U''
                          else if py target > py head then ''D'' else ''C'');
                    dU = flag (isBlocking g snk (px head) (py head - 1));
                    dD = flag (isBlocking g snk (px head) (py head + 1));
                    dL = flag (isBlocking g snk (px head - 1) (py head));
                    dR = flag (isBlocking g snk (px head + 1) (py head));
                    dU2 = flag (isBlocking g snk (px head) (py head - 2));
                    dD2 = flag (isBlocking g snk (px head) (py head + 2));
                    dL2 = flag (isBlocking g snk (px head - 2) (py head));
                    dR2 = flag (isBlocking g snk (px head + 2) (py head))
                in Inr (tX @ tY @ dU @ dD @ dL @ dR @ dU2 @ dD2 @ dL2 @ dR2 @ headingOf snk))))"

subsection \<open>Value table access and action selection\<close>

text \<open>\<open>getQValues\<close>: the vector of the fingerprint, and the agent after the lookup.\<close>

definition getQValues :: "QLearningAgent \<Rightarrow> string \<Rightarrow> real list \<times> QLearningAgent" where
  "getQValues ag st =
     (case qTable ag st of
        None \<Rightarrow> ([0, 0, 0, 0], ag\<lparr> qTable := (qTable ag)(st \<mapsto> [0, 0, 0, 0]) \<rparr>)
      | Some q \<Rightarrow> (q, ag))"

definition getCurrentStateQValues :: "QLearningAgent \<Rightarrow> error + (real list \<times> QLearningAgent)" where
  "getCurrentStateQValues ag =
     (case getStateString (game ag) of
        Inl e \<Rightarrow> Inl e
      | Inr st \<Rightarrow> Inr (getQValues ag st))"

text \<open>The scan for the first largest of the four values.\<close>

definition argmax4 :: "real list \<Rightarrow> nat" where
  "argmax4 q =
     fst (fold (\<lambda>i (maxIdx, maxVal). if q ! i > maxVal then (i, q ! i) else (maxIdx, maxVal))
               [1, 2, 3] (0, q ! 0))"

definition chooseAction ::
  "rng \<Rightarrow> nat \<Rightarrow> QLearningAgent \<Rightarrow> string \<Rightarrow> nat \<times> QLearningAgent \<times> nat"
where
  "chooseAction rnd c ag st =
     (if Math_random rnd c < epsilon ag then (nat (randomIndex rnd (c + 1) 4), ag, c + 2)
      else (let (q, ag') = getQValues ag st in (argmax4 q, ag', c + 1)))"

subsection \<open>One decision\<close>

definition directions :: "Direction list" where
  "directions = [UP, DOWN, LEFT, RIGHT]"

definition manhattan :: "Point \<Rightarrow> Point \<Rightarrow> int" where
  "manhattan a b = \<bar>px a - px b\<bar> + \<bar>py a - py b\<bar>"

definition Math_max :: "real list \<Rightarrow> real" where
  "Math_max q = fold max q (hd q)"

text \<open>
  Proximity shaping of \<open>update\<close>: \<open>target\<close> and \<open>distBefore\<close> are the values of the local
  constants that were computed before the step, \<open>g'\<close> is the game after the step.
\<close>

definition shapeReward :: "real \<Rightarrow> Point \<Rightarrow> int \<Rightarrow> SnakeGame \<Rightarrow> error + real" where
  "shapeReward reward target distBefore g' =
     (if \<not> isGameOver (state g') then
        (case snake (state g') of
           [] \<Rightarrow> Inl TypeError
         | headAfter # rest \<Rightarrow>
             (let distAfter = manhattan headAfter target in
              if distAfter < distBefore then Inr (reward + 0.8)
              else if distAfter > distBefore then Inr (reward - 0.8)
              else Inr reward))
      else Inr reward)"

text \<open>
  The first half of \<open>update\<close>, up to the accumulation of the reward: the fingerprint before
  the move, the chosen action, the shaped reward that the value update will use, and the
  agent and cursor after the step.
\<close>

definition act ::
  "rng \<Rightarrow> nat \<Rightarrow> QLearningAgent \<Rightarrow> error + (string \<times> nat \<times> real \<times> QLearningAgent \<times> nat)"
where
  "act rnd c ag =
     (case getStateString (game ag) of
        Inl e \<Rightarrow> Inl e
      | Inr st \<Rightarrow>
          (case (snake (state (game ag)), activeTarget (state (game ag))) of
             (headBefore # rest, Some target) \<Rightarrow>
               (let distBefore = manhattan headBefore target;
                    (action, ag1, c1) = chooseAction rnd c ag st
                in case step rnd c1 (directions ! action) (game ag1) of
                     Inl e \<Rightarrow> Inl e
                   | Inr (r, g', c2) \<Rightarrow>
                       (case shapeReward r target distBefore g' of
                          Inl e \<Rightarrow> Inl e
                        | Inr reward \<Rightarrow>
                            Inr (st, action, reward,
                                 ag1\<lparr> game := g', totalReward := totalReward ag1 + reward,
                                      totalStepsEver := totalStepsEver ag1 + 1 \<rparr>,
                                 c2)))
           | _ \<Rightarrow> Inl TypeError))"

text \<open>The guarded decay of the exploration rate.\<close>

definition decayEpsilon :: "real \<Rightarrow> real" where
  "decayEpsilon e = (if e > epsilonMin then e * epsilonDecay else e)"

text \<open>The second half of \<open>update\<close>: the temporal-difference update and the decay.\<close>

definition learn ::
  "string \<Rightarrow> nat \<Rightarrow> real \<Rightarrow> QLearningAgent \<Rightarrow> error + QLearningAgent"
where
  "learn st action reward ag =
     (case getStateString (game ag) of
        Inl e \<Rightarrow> Inl e
      | Inr nextState \<Rightarrow>
          (let (nextQValues, ag3) = getQValues ag nextState;
               maxNextQ = Math_max nextQValues;
               (currentQValues, ag4) = getQValues ag3 st;
               newQ = currentQValues[action := currentQValues ! action +
                        alpha * (reward
                                 + gamma * (if isGameOver (state (game ag4)) then 0 else maxNextQ)
                                 - currentQValues ! action)];
               ag5 = ag4\<lparr> qTable := (qTable ag4)(st \<mapsto> newQ) \<rparr>
           in Inr (ag5\<lparr> epsilon := decayEpsilon (epsilon ag5) \<rparr>)))"

definition update :: "rng \<Rightarrow> nat \<Rightarrow> QLearningAgent \<Rightarrow> error + (QLearningAgent \<times> nat)" where
  "update rnd c ag =
     (if isGameOver (state (game ag)) then Inr (ag, c)
      else
        (case act rnd c ag of
           Inl e \<Rightarrow> Inl e
         | Inr (st, action, reward, ag2, c2) \<Rightarrow>
             (case learn st action reward ag2 of
                Inl e \<Rightarrow> Inl e
              | Inr ag' \<Rightarrow> Inr (ag', c2))))"

text \<open>\<open>reset\<close>: a fresh game at the level reached; the reward accumulator is cleared.\<close>

definition reset :: "rng \<Rightarrow> nat \<Rightarrow> QLearningAgent \<Rightarrow> QLearningAgent \<times> nat" where
  "reset rnd c ag =
     (let (g, c') = newSnakeGame rnd c (level (state (game ag)))
      in (ag\<lparr> game := g, totalReward := 0 \<rparr>, c'))"

subsection \<open>Restoring persisted state\<close>

text \<open>
  \<open>loadFromStorage\<close> assigns what the JavaScript built-ins return, and the types of
  TypeScript are not checked at run time. The three fields it assigns are therefore
  modelled with their run-time values: a number is a real, \<open>NaN\<close> or an infinity, and a
  table entry holds any JSON value.
\<close>

datatype jsnum = Num real | NaN | PosInfinity | NegInfinity

datatype json =
  JNull | JBool bool | JNumber real | JString string | JArray "json list"
  | JObject "(string \<times> json) list"

record LoadedFields =
  rt_qTable :: "string \<rightharpoonup> json"
  rt_epsilon :: jsnum
  rt_totalStepsEver :: jsnum

text \<open>The values of the field initialisers and of the constructor.\<close>

definition defaultFields :: LoadedFields where
  "defaultFields = \<lparr> rt_qTable = Map.empty, rt_epsilon = Num 1, rt_totalStepsEver = Num 0 \<rparr>"

text \<open>The three \<open>localStorage.getItem\<close> results (\<open>None\<close> is \<open>null\<close>).\<close>

record Storage =
  qs_v6_qtable :: "string option"
  qs_v6_epsilon :: "string option"
  qs_v6_steps :: "string option"

text \<open>\<open>if (saved)\<close> on a value of type \<open>string | null\<close>: neither \<open>null\<close> nor empty.\<close>

definition truthy :: "string option \<Rightarrow> bool" where
  "truthy v = (case v of None \<Rightarrow> False | Some t \<Rightarrow> t \<noteq> [])"

text \<open>
  The built-ins \<open>parseFloat\<close> and \<open>parseInt(_, 10)\<close> after ECMA-262: leading white space is
  skipped (the ASCII white space here), then the longest prefix that is a decimal literal
  is converted, and the result is \<open>NaN\<close> when there is no such prefix. The value is the
  exact real (no rounding to a double, no overflow to an infinity).
\<close>

definition isWhite :: "char \<Rightarrow> bool" where
  "isWhite ch = (ch \<in> set [CHR '' '', CHR 0x09, CHR 0x0A, CHR 0x0B, CHR 0x0C, CHR 0x0D])"

definition isDigit :: "char \<Rightarrow> bool" where
  "isDigit ch = (ch \<in> set ''0123456789'')"

definition digitsVal :: "string \<Rightarrow> nat" where
  "digitsVal ds = foldl (\<lambda>a ch. 10 * a + (of_char ch - 48)) 0 ds"

definition splitSign :: "string \<Rightarrow> bool \<times> string" where
  "splitSign t =
     (case t of
        [] \<Rightarrow> (False, t)
      | ch # rest \<Rightarrow>
          if ch = CHR ''-'' then (True, rest)
          else if ch = CHR ''+'' then (False, rest) else (False, t))"

text \<open>The exponent part \<open>e\<close> or \<open>E\<close>, optional sign, digits; 0 when there is none.\<close>

definition exponentOf :: "string \<Rightarrow> int" where
  "exponentOf r =
     (case r of
        [] \<Rightarrow> 0
      | ch # rest \<Rightarrow>
          if ch = CHR ''e'' \<or> ch = CHR ''E'' then
            (let (neg, u) = splitSign rest; ds = takeWhile isDigit u
             in if ds = [] then 0
                else if neg then - int (digitsVal ds) else int (digitsVal ds))
          else 0)"

definition parseFloat :: "string \<Rightarrow> jsnum" where
  "parseFloat str =
     (let (neg, u) = splitSign (dropWhile isWhite str) in
      if take 8 u = ''Infinity'' then (if neg then NegInfinity else PosInfinity)
      else
        (let ip = takeWhile isDigit u;
             r1 = dropWhile isDigit u;
             (fp, r2) =
               (case r1 of
                  [] \<Rightarrow> ([], r1)
                | ch # rest \<Rightarrow>
                    if ch = CHR ''.'' then (takeWhile isDigit rest, dropWhile isDigit rest)
                    else ([], r1))
         in if ip = [] \<and> fp = [] then NaN
            else
              (let m = real (digitsVal ip) + real (digitsVal fp) / 10 ^ length fp;
                   e = exponentOf r2;
                   v = (if e \<ge> 0 then m * 10 ^ nat e else m / 10 ^ nat (- e))
               in Num (if neg then - v else v))))"

definition parseInt10 :: "string \<Rightarrow> jsnum" where
  "parseInt10 str =
     (let (neg, u) = splitSign (dropWhile isWhite str);
          ds = takeWhile isDigit u
      in if ds = [] then NaN
         else Num (if neg then - real (digitsVal ds) else real (digitsVal ds)))"

text \<open>Decimal notation of an array index.\<close>

fun showNat :: "nat \<Rightarrow> string" where
  "showNat n =
     (if n < 10 then [''0123456789'' ! n]
      else showNat (n div 10) @ [''0123456789'' ! (n mod 10)])"

text \<open>
  \<open>Object.entries\<close> on a parsed JSON value: it throws on \<open>null\<close>, a number or a boolean has
  no own property, a string and an array have their indices, and an object has its
  properties (listed in \<open>JObject\<close> in enumeration order).
\<close>

definition Object_entries :: "json \<Rightarrow> error + (string \<times> json) list" where
  "Object_entries v =
     (case v of
        JNull \<Rightarrow> Inl TypeError
      | JBool b \<Rightarrow> Inr []
      | JNumber r \<Rightarrow> Inr []
      | JString t \<Rightarrow> Inr (map (\<lambda>i. (showNat i, JString [t ! i])) [0..<length t])
      | JArray xs \<Rightarrow> Inr (map (\<lambda>i. (showNat i, xs ! i)) [0..<length xs])
      | JObject kvs \<Rightarrow> Inr kvs)"

text \<open>\<open>new Map(entries)\<close>: a later entry replaces an earlier one with the same key.\<close>

definition newMap :: "(string \<times> json) list \<Rightarrow> (string \<rightharpoonup> json)" where
  "newMap es = map_of (rev es)"

text \<open>
  \<open>loadFromStorage\<close>, with \<open>JSON.parse\<close> as a parameter (\<open>Inl SyntaxError\<close> when it throws).
  The result is the fields after the call and the messages written by \<open>console.error\<close>.
  An exception inside \<open>try\<close> is caught, and nothing outside \<open>try\<close> throws.
\<close>

definition loadFromStorage ::
  "(string \<Rightarrow> error + json) \<Rightarrow> Storage \<Rightarrow> LoadedFields \<Rightarrow> LoadedFields \<times> string list"
where
  "loadFromStorage JSON_parse store f =
     (let savedTable = qs_v6_qtable store;
          savedEpsilon = qs_v6_epsilon store;
          savedSteps = qs_v6_steps store;
          (f1, logged) =
            (if truthy savedTable then
               (case JSON_parse (the savedTable) of
                  Inl e \<Rightarrow> (f, [''Failed to load QTable''])
                | Inr obj \<Rightarrow>
                    (case Object_entries obj of
                       Inl e \<Rightarrow> (f, [''Failed to load QTable''])
                     | Inr es \<Rightarrow> (f\<lparr> rt_qTable := newMap es \<rparr>, [])))
             else (f, []));
          f2 = (if truthy savedEpsilon then f1\<lparr> rt_epsilon := parseFloat (the savedEpsilon) \<rparr>
                else f1);
          f3 = (if truthy savedSteps
                then f2\<lparr> rt_totalStepsEver := parseInt10 (the savedSteps) \<rparr> else f2)
      in (f3, logged))"

section \<open>Example configurations\<close>

text \<open>
  A level-1 game right after construction (body at the spawn, no obstacles) with the goal
  directly above the head, and the same game with its terminal flag set.
\<close>

definition freshState :: GameState where
  "freshState =
     \<lparr> snake = spawnSnake, food = Point 15 14, specialItems = [], walls = [], score = 0,
       level = 1, itemsCollectedInLevel = 0, isGameOver = False, steps = 0,
       slowEffectSteps = 0, portalOpen = False, portalPoint = None \<rparr>"

definition freshGame :: SnakeGame where
  "freshGame = \<lparr> state = freshState, wallMap = emptyWallMap \<rparr>"

definition overGame :: SnakeGame where
  "overGame = \<lparr> state = freshState\<lparr> isGameOver := True \<rparr>, wallMap = emptyWallMap \<rparr>"

text \<open>A random source whose every draw is 0.\<close>

definition zeroRng :: rng where
  "zeroRng = (\<lambda>n. 0)"

text \<open>A new agent on that game (empty table, exploration rate 1).\<close>

definition freshAgent :: QLearningAgent where
  "freshAgent =
     \<lparr> qTable = Map.empty, epsilon = 1, game = freshGame, totalReward = 0,
       totalStepsEver = 0 \<rparr>"

text \<open>The same agent with an exploration rate just above the floor.\<close>

definition nearFloorAgent :: QLearningAgent where
  "nearFloorAgent = freshAgent\<lparr> epsilon := 0.010000001 \<rparr>"

text \<open>Two games that differ in the step counter, the score and the expiry of an item.\<close>

definition earlyGame :: SnakeGame where
  "earlyGame =
     freshGame\<lparr> state := freshState\<lparr> specialItems :=
       [\<lparr> point = Point 3 3, type = GOLD, expires = 100 \<rparr>] \<rparr> \<rparr>"

definition lateGame :: SnakeGame where
  "lateGame =
     freshGame\<lparr> state := freshState\<lparr> steps := 42, score := 9, specialItems :=
       [\<lparr> point = Point 3 3, type = GOLD, expires = 200 \<rparr>] \<rparr> \<rparr>"

text \<open>
  The game after \<open>freshGame\<close> moved up onto the goal with every draw 0 (the goal is relocated
  to the sampled cell \<open>(0, 0)\<close>), and the agent after the decision that made this move.
\<close>

definition goalGame :: SnakeGame where
  "goalGame =
     freshGame\<lparr> state := freshState\<lparr>
       snake := [Point 15 14, Point 15 15, Point 15 16, Point 15 17], food := Point 0 0,
       score := 1, itemsCollectedInLevel := 1, steps := 1 \<rparr> \<rparr>"

definition learnedAgent :: QLearningAgent where
  "learnedAgent =
     \<lparr> qTable = [''LU01000100U'' \<mapsto> [0, 0, 0, 0], ''CU01000100U'' \<mapsto> [7.7, 0, 0, 0]],
       epsilon = 0.999997, game = goalGame, totalReward = 30.8, totalStepsEver = 1 \<rparr>"

text \<open>
  The shaping in the words of the specification, for comparison with \<open>shapeReward\<close>: the
  distance after the move is measured to the navigation target of the game after the move.
\<close>

definition shapeReward_postMoveTarget :: "real \<Rightarrow> int \<Rightarrow> SnakeGame \<Rightarrow> error + real" where
  "shapeReward_postMoveTarget reward distBefore g' =
     (if \<not> isGameOver (state g') then
        (case (snake (state g'), activeTarget (state g')) of
           (headAfter # rest, Some target') \<Rightarrow>
             (let distAfter = manhattan headAfter target' in
              if distAfter < distBefore then Inr (reward + 0.8)
              else if distAfter > distBefore then Inr (reward - 0.8)
              else Inr reward)
         | _ \<Rightarrow> Inl TypeError)
      else Inr reward)"

text \<open>
  Two quantities of the item phase of \<open>step\<close>, named for the statements below: the item
  list after the picked item was spliced out, and the new body after the cut of a
  \<open>SCISSORS\<close> pickup.
\<close>

definition spliced :: "SpecialItem list \<Rightarrow> Point \<Rightarrow> SpecialItem list" where
  "spliced items h =
     (case pickedItemIndex items h of
        None \<Rightarrow> items
      | Some i \<Rightarrow> take i items @ drop (Suc i) items)"

definition shrunk :: "SpecialItem list \<Rightarrow> Point \<Rightarrow> Point list \<Rightarrow> Point list" where
  "shrunk items h ns =
     (case pickedItemIndex items h of
        None \<Rightarrow> ns
      | Some i \<Rightarrow>
          (if type (items ! i) = SCISSORS
           then popN (nat (min 3 (max 0 (int (length ns) - 5)))) ns else ns))"

text \<open>
  A replay from construction. With the draws of \<open>spawnRng\<close> the constructor places the goal
  on \<open>(16, 14)\<close>; the body then runs 75 moves around a 2 x 2 block, and the spawn of step 75
  draws a \<open>GOLD\<close> item for the cell \<open>(16, 14)\<close>. One more move to the right reaches that
  cell.
\<close>

definition spawnRng :: rng where
  "spawnRng n = (if n = 0 \<or> n = 4 then 11 / 20 else if n = 1 \<or> n = 5 then 29 / 60 else 0)"

definition startGame :: SnakeGame where
  "startGame = \<lparr> state = freshState\<lparr> food := Point 16 14 \<rparr>, wallMap = emptyWallMap \<rparr>"

definition loopGame :: "int \<Rightarrow> SnakeGame" where
  "loopGame k =
     \<lparr> state = freshState\<lparr> food := Point 16 14, steps := k,
                           snake := [Point 15 15, Point 15 14, Point 14 14] \<rparr>,
       wallMap = emptyWallMap \<rparr>"

definition spawnedGame :: SnakeGame where
  "spawnedGame =
     \<lparr> state = freshState\<lparr> food := Point 16 14, steps := 75,
                           snake := [Point 15 14, Point 14 14, Point 14 15],
                           specialItems := [\<lparr> point = Point 16 14, type = GOLD, expires = 225 \<rparr>] \<rparr>,
       wallMap = emptyWallMap \<rparr>"

definition feastGame :: SnakeGame where
  "feastGame =
     \<lparr> state = freshState\<lparr> food := Point 0 0, steps := 76, score := 16,
                           itemsCollectedInLevel := 1,
                           snake := [Point 16 14, Point 15 14, Point 14 14, Point 14 15] \<rparr>,
       wallMap = emptyWallMap \<rparr>"

definition lap :: "Direction list" where
  "lap = [LEFT, UP, RIGHT, DOWN]"

definition moves75 :: "Direction list" where
  "moves75 = lap @ concat (replicate 17 lap) @ [LEFT, UP, RIGHT]"

text \<open>
  The game one move before \<open>spawnedGame\<close>, and \<open>freshGame\<close> after the move up onto the goal
  when the relocation samples the cell \<open>(16, 14)\<close>.
\<close>

definition preSpawnGame :: SnakeGame where
  "preSpawnGame =
     \<lparr> state = freshState\<lparr> food := Point 16 14, steps := 74,
                           snake := [Point 14 14, Point 14 15, Point 15 15] \<rparr>,
       wallMap = emptyWallMap \<rparr>"

definition movedGoalGame :: SnakeGame where
  "movedGoalGame =
     freshGame\<lparr> state := freshState\<lparr>
       snake := [Point 15 14, Point 15 15, Point 15 16, Point 15 17], food := Point 16 14,
       score := 1, itemsCollectedInLevel := 1, steps := 1 \<rparr> \<rparr>"

text \<open>
  A second replay from construction. With the draws of \<open>originRng\<close> the goal again starts
  on \<open>(16, 14)\<close>, and every later draw is 0: the spawn of step 75 puts a \<open>GOLD\<close> item on
  \<open>(0, 0)\<close>, and when move 76 consumes the goal every sample of the relocation is the item
  cell \<open>(0, 0)\<close>.
\<close>

definition originRng :: rng where
  "originRng n = (if n = 0 then 11 / 20 else if n = 1 then 29 / 60 else 0)"

definition originItemGame :: SnakeGame where
  "originItemGame =
     \<lparr> state = freshState\<lparr> food := Point 16 14, steps := 75,
                           snake := [Point 15 14, Point 14 14, Point 14 15],
                           specialItems := [\<lparr> point = Point 0 0, type = GOLD, expires = 225 \<rparr>] \<rparr>,
       wallMap = emptyWallMap \<rparr>"

definition fallbackGame :: SnakeGame where
  "fallbackGame =
     \<lparr> state = freshState\<lparr> food := Point 0 0, steps := 76, score := 1,
                           itemsCollectedInLevel := 1,
                           snake := [Point 16 14, Point 15 14, Point 14 14, Point 14 15],
                           specialItems := [\<lparr> point = Point 0 0, type = GOLD, expires = 225 \<rparr>] \<rparr>,
       wallMap = emptyWallMap \<rparr>"

text \<open>
  A body in the top row next to the goal on \<open>(0, 0)\<close>, and the game after the move to the
  left when every draw is 0.
\<close>

definition cornerGame :: SnakeGame where
  "cornerGame =
     \<lparr> state = freshState\<lparr> food := Point 0 0,
                           snake := [Point 1 0, Point 2 0, Point 3 0] \<rparr>,
       wallMap = emptyWallMap \<rparr>"

definition corneredGame :: SnakeGame where
  "corneredGame =
     \<lparr> state = freshState\<lparr> food := Point 0 0, steps := 1, score := 1,
                           itemsCollectedInLevel := 1,
                           snake := [Point 0 0, Point 1 0, Point 2 0, Point 3 0] \<rparr>,
       wallMap = emptyWallMap \<rparr>"

text \<open>A body of length 5 below a \<open>SCISSORS\<close> item, and the game after moving up onto it.\<close>

definition scissorsGame :: SnakeGame where
  "scissorsGame =
     \<lparr> state = freshState\<lparr> food := Point 3 3,
         snake := [Point 15 15, Point 15 16, Point 15 17, Point 15 18, Point 15 19],
         specialItems := [\<lparr> point = Point 15 14, type = SCISSORS, expires = 100 \<rparr>] \<rparr>,
       wallMap = emptyWallMap \<rparr>"

definition cutGame :: SnakeGame where
  "cutGame =
     \<lparr> state = freshState\<lparr> food := Point 3 3, steps := 1, score := 5,
         snake := [Point 15 14, Point 15 15, Point 15 16, Point 15 17] \<rparr>,
       wallMap = emptyWallMap \<rparr>"

text \<open>A persisted payload without a table whose two scalars are not numbers.\<close>

definition brokenStore :: Storage where
  "brokenStore =
     \<lparr> qs_v6_qtable = None, qs_v6_epsilon = Some ''abc'', qs_v6_steps = Some ''many'' \<rparr>"

text \<open>
  A block of 6 x 6 cells with lower corner \<open>(x0, y0)\<close>. The blocks of this size that
  surround the spawn \<open>(15, 15)\<close> with at least two cells on every side have their corner
  at 12 or 13 on each axis. Below it, the Taylor polynomial of degree 13 of the sine.
\<close>

definition block6 :: "int \<Rightarrow> int \<Rightarrow> Point \<Rightarrow> bool" where
  "block6 x0 y0 p = (x0 \<le> px p \<and> px p < x0 + 6 \<and> y0 \<le> py p \<and> py p < y0 + 6)"

definition sinPoly :: "real \<Rightarrow> real" where
  "sinPoly x = x - x ^ 3 / 6 + x ^ 5 / 120 - x ^ 7 / 5040 + x ^ 9 / 362880
               - x ^ 11 / 39916800 + x ^ 13 / 6227020800"

section \<open>Evaluation lemmas\<close>

lemma wallAt_empty:
  "0 \<le> a \<Longrightarrow> a < 30 \<Longrightarrow> 0 \<le> b \<Longrightarrow> b < 30 \<Longrightarrow> wallAt emptyWallMap a b = False"
  by (simp add: wallAt_def emptyWallMap_def GRID_SIZE_def)

lemma sample_zero:
  "Point 0 0 \<notin> set snk \<Longrightarrow> Point 0 0 \<notin> set (map point its) \<Longrightarrow>
   getRandomEmptyPoint zeroRng c emptyWallMap snk its = (Point 0 0, c + 2)"
  unfolding getRandomEmptyPoint_def
  by (subst sampleLoop.simps)
     (simp add: randomIndex_def Math_random_def zeroRng_def GRID_SIZE_def wallAt_empty)

text \<open>\<open>freshGame\<close> is what the constructor builds when it draws the goal cell \<open>(15, 14)\<close>.\<close>

lemma freshGame_constructed:
  "newSnakeGame (\<lambda>n. if n = 0 then 31 / 60 else 29 / 60) 0 1 = (freshGame, 2)"
proof -
  have "getRandomEmptyPoint (\<lambda>n. if n = 0 then 31 / 60 else 29 / 60) 0 emptyWallMap spawnSnake []
          = (Point 15 14, 2)"
    unfolding getRandomEmptyPoint_def
    by (subst sampleLoop.simps)
       (simp add: randomIndex_def Math_random_def GRID_SIZE_def wallAt_empty frac_def
          spawnSnake_def)
  then show ?thesis
    by (simp add: newSnakeGame_def updateWallMap_def getInitialState_def getLevelWalls_def
        freshGame_def freshState_def)
qed

lemma fresh_facts:
  "snake (state freshGame) = spawnSnake"
  "activeTarget (state freshGame) = Some (Point 15 14)"
  "isGameOver (state freshGame) = False"
  by (simp_all add: freshGame_def freshState_def activeTarget_def)

lemma goal_facts:
  "snake (state goalGame) = [Point 15 14, Point 15 15, Point 15 16, Point 15 17]"
  "activeTarget (state goalGame) = Some (Point 0 0)"
  "isGameOver (state goalGame) = False"
  by (simp_all add: goalGame_def freshGame_def freshState_def activeTarget_def)

lemma fingerprint_fresh: "getStateString freshGame = Inr ''CU01000100U''"
  by (simp add: getStateString_def freshGame_def freshState_def spawnSnake_def activeTarget_def
      isBlocking_def isPointWall_def GRID_SIZE_def wallAt_empty flag_def headingOf_def)

lemma fingerprint_goal: "getStateString goalGame = Inr ''LU01000100U''"
  by (simp add: getStateString_def goalGame_def freshGame_def freshState_def activeTarget_def
      isBlocking_def isPointWall_def GRID_SIZE_def wallAt_empty flag_def headingOf_def)

lemma step_fresh: "step zeroRng 2 UP freshGame = Inr (30, goalGame, 4)"
  by (simp add: step_def tick_def deathCheck_def freshGame_def freshState_def spawnSnake_def movePoint_def GRID_SIZE_def
      wallAt_empty maxSteps_def pickItem_def consumeGoal_def LEVEL_GOAL_def sample_zero
      spawnItem_def goalGame_def)

lemma choose_zero: "0 < epsilon ag \<Longrightarrow> chooseAction zeroRng 0 ag st = (0, ag, 2)"
  by (simp add: chooseAction_def Math_random_def randomIndex_def zeroRng_def)

lemma agent_game: "game (freshAgent\<lparr> epsilon := e \<rparr>) = freshGame"
  by (simp add: freshAgent_def)

lemma act_fresh:
  "0 < e \<Longrightarrow> act zeroRng 0 (freshAgent\<lparr> epsilon := e \<rparr>) =
     Inr (''CU01000100U'', 0, 154 / 5,
          freshAgent\<lparr> epsilon := e, game := goalGame, totalReward := 154 / 5,
                      totalStepsEver := 1 \<rparr>, 4)"
  by (simp add: act_def freshAgent_def fingerprint_fresh fresh_facts choose_zero directions_def
      step_fresh shapeReward_def goal_facts spawnSnake_def manhattan_def)

lemma update_fresh:
  "0 < e \<Longrightarrow> update zeroRng 0 (freshAgent\<lparr> epsilon := e \<rparr>) =
     Inr (freshAgent\<lparr> epsilon := decayEpsilon e, game := goalGame, totalReward := 154 / 5,
                      totalStepsEver := 1,
                      qTable := [''LU01000100U'' \<mapsto> [0, 0, 0, 0],
                                 ''CU01000100U'' \<mapsto> [alpha * (154 / 5), 0, 0, 0]] \<rparr>, 4)"
  by (simp add: update_def agent_game act_fresh fresh_facts)
     (simp add: learn_def freshAgent_def goal_facts fingerprint_goal getQValues_def Math_max_def)

lemma update_freshAgent: "update zeroRng 0 freshAgent = Inr (learnedAgent, 4)"
  using update_fresh [of 1]
  by (simp add: freshAgent_def learnedAgent_def decayEpsilon_def epsilonMin_def
      epsilonDecay_def alpha_def)

section \<open>Frame lemmas of the agent\<close>

lemma getQValues_frame:
  "getQValues ag st = (q, ag') \<Longrightarrow>
     game ag' = game ag \<and> epsilon ag' = epsilon ag \<and> totalReward ag' = totalReward ag
     \<and> totalStepsEver ag' = totalStepsEver ag"
  by (auto simp: getQValues_def split: option.splits)

lemma chooseAction_frame:
  "chooseAction rnd c ag st = (a, ag1, c1) \<Longrightarrow>
     game ag1 = game ag \<and> epsilon ag1 = epsilon ag \<and> totalReward ag1 = totalReward ag"
  by (auto simp: chooseAction_def split: if_splits prod.splits dest: getQValues_frame)

lemma learn_frame:
  "learn st a reward ag2 = Inr ag' \<Longrightarrow>
     game ag' = game ag2 \<and> totalReward ag' = totalReward ag2
     \<and> epsilon ag' = decayEpsilon (epsilon ag2)"
  by (auto simp: learn_def Let_def split: sum.splits prod.splits dest!: getQValues_frame)

lemma act_epsilon:
  "act rnd c ag = Inr (st, a, reward, ag2, c2) \<Longrightarrow> epsilon ag2 = epsilon ag"
  by (auto simp: act_def Let_def split: sum.splits prod.splits list.splits option.splits
      dest!: chooseAction_frame)

lemma shapeReward_Inr:
  assumes "shapeReward r target distBefore g' = Inr reward"
    and "\<not> isGameOver (state g')"
  shows "snake (state g') \<noteq> []"
    and "reward = r + (if manhattan (hd (snake (state g'))) target < distBefore then 0.8
                     else if manhattan (hd (snake (state g'))) target > distBefore then - 0.8
                     else 0)"
  using assms by (auto simp: shapeReward_def Let_def split: list.splits if_splits)

lemma act_reward:
  assumes "act rnd c ag = Inr (st, a, reward, ag2, c2)"
    and "\<not> isGameOver (state (game ag2))"
  shows "\<exists>headBefore rest target headAfter rest' r c1.
     snake (state (game ag)) = headBefore # rest \<and> activeTarget (state (game ag)) = Some target \<and>
     step rnd c1 (directions ! a) (game ag) = Inr (r, game ag2, c2) \<and>
     snake (state (game ag2)) = headAfter # rest' \<and>
     reward = r + (if manhattan headAfter target < manhattan headBefore target then 0.8
                   else if manhattan headAfter target > manhattan headBefore target then - 0.8
                   else 0) \<and>
     totalReward ag2 = totalReward ag + reward"
proof -
  from assms(1) obtain headBefore rest target ag1 c1 r g'
    where sn: "snake (state (game ag)) = headBefore # rest"
      and tg: "activeTarget (state (game ag)) = Some target"
      and ch: "chooseAction rnd c ag st = (a, ag1, c1)"
      and stp: "step rnd c1 (directions ! a) (game ag1) = Inr (r, g', c2)"
      and sh: "shapeReward r target (manhattan headBefore target) g' = Inr reward"
      and ag2: "ag2 = ag1\<lparr> game := g', totalReward := totalReward ag1 + reward,
                            totalStepsEver := totalStepsEver ag1 + 1 \<rparr>"
    by (auto simp: act_def Let_def split: sum.splits prod.splits list.splits option.splits)
  from ch have fr: "game ag1 = game ag" "totalReward ag1 = totalReward ag"
    by (auto dest: chooseAction_frame)
  from ag2 have g': "game ag2 = g'"
    by simp
  with assms(2) have live: "\<not> isGameOver (state g')"
    by simp
  from shapeReward_Inr [OF sh live] obtain headAfter rest'
    where sn': "snake (state g') = headAfter # rest'"
      and rw: "reward = r + (if manhattan headAfter target < manhattan headBefore target then 0.8
                   else if manhattan headAfter target > manhattan headBefore target then - 0.8
                   else 0)"
    by (cases "snake (state g')") auto
  from ag2 fr have tr: "totalReward ag2 = totalReward ag + reward"
    by simp
  from stp fr g' have stp': "step rnd c1 (directions ! a) (game ag) = Inr (r, game ag2, c2)"
    by simp
  from sn' g' have sn'': "snake (state (game ag2)) = headAfter # rest'"
    by simp
  show ?thesis
    using sn tg stp' sn'' rw tr by blast
qed

section \<open>The exploration rate\<close>

text \<open>
  What one \<open>update\<close> does to the exploration rate: nothing on a terminal game (no decision
  is made), and otherwise exactly one guarded decay, whatever the outcome of the step.
\<close>

lemma update_epsilon:
  "update rnd c ag = Inr (ag', c') \<Longrightarrow>
     epsilon ag' = (if isGameOver (state (game ag)) then epsilon ag
                    else decayEpsilon (epsilon ag))"
  by (auto simp: update_def split: if_splits sum.splits prod.splits
      dest!: learn_frame act_epsilon)

lemma decayEpsilon_le: "decayEpsilon e \<le> e"
  by (simp add: decayEpsilon_def epsilonMin_def epsilonDecay_def)

text \<open>The exploration rate never increases.\<close>

lemma update_epsilon_nonincreasing:
  "update rnd c ag = Inr (ag', c') \<Longrightarrow> epsilon ag' \<le> epsilon ag"
  by (simp add: update_epsilon decayEpsilon_le)

text \<open>No power of the decay factor is the floor itself.\<close>

lemma decay_pow_ne: "(999997 / 1000000 :: real) ^ k \<noteq> 1 / 100"
proof
  assume "(999997 / 1000000 :: real) ^ k = 1 / 100"
  then have "100 * (999997::real) ^ k = 1000000 ^ k"
    by (simp add: field_simps)
  then have "real (100 * 999997 ^ k) = real (1000000 ^ k)"
    by simp
  then have eq: "100 * 999997 ^ k = (1000000::nat) ^ k"
    using of_nat_eq_iff by blast
  show False
  proof (cases k)
    case 0
    with eq show False by simp
  next
    case (Suc j)
    with eq have "100 * 999997 ^ k = (100::nat) * (10000 * 1000000 ^ j)"
      by simp
    then have "(999997::nat) ^ k = 10000 * 1000000 ^ j"
      by simp
    moreover have "odd ((999997::nat) ^ k)"
      by simp
    moreover have "even (10000 * 1000000 ^ j :: nat)"
      by simp
    ultimately show False
      by simp
  qed
qed

lemma decay_iterate:
  "(\<And>k. k < n \<Longrightarrow> epsilonMin \<le> epsilonDecay ^ k) \<Longrightarrow> (decayEpsilon ^^ n) 1 = epsilonDecay ^ n"
proof (induction n)
  case 0
  then show ?case by simp
next
  case (Suc n)
  then have ih: "(decayEpsilon ^^ n) 1 = epsilonDecay ^ n"
    by simp
  have "epsilonMin \<le> epsilonDecay ^ n"
    using Suc.prems by simp
  moreover have "epsilonDecay ^ n \<noteq> epsilonMin"
    using decay_pow_ne [of n] by (simp add: epsilonDecay_def epsilonMin_def)
  ultimately have gt: "epsilonMin < epsilonDecay ^ n"
    by simp
  have "(decayEpsilon ^^ Suc n) 1 = decayEpsilon (epsilonDecay ^ n)"
    by (simp add: ih)
  also have "\<dots> = epsilonDecay ^ n * epsilonDecay"
    using gt unfolding decayEpsilon_def by simp
  finally show ?case
    by (simp add: mult.commute)
qed

text \<open>Started at the initial rate 1, the guarded decay ends below the floor.\<close>

lemma decay_reaches_below_floor: "\<exists>n. (decayEpsilon ^^ n) 1 < epsilonMin"
proof -
  have "\<exists>n. epsilonDecay ^ n < epsilonMin"
    by (rule real_arch_pow_inv) (simp_all add: epsilonMin_def epsilonDecay_def)
  then obtain n where n: "epsilonDecay ^ n < epsilonMin"
    and least: "\<And>k. k < n \<Longrightarrow> \<not> epsilonDecay ^ k < epsilonMin"
    using exists_least_iff [of "\<lambda>n. epsilonDecay ^ n < epsilonMin"] by blast
  have "(decayEpsilon ^^ n) 1 = epsilonDecay ^ n"
    by (rule decay_iterate) (use least in force)
  with n have "(decayEpsilon ^^ n) 1 < epsilonMin"
    by simp
  then show ?thesis ..
qed

text \<open>
  Claim C4. The claim says that the exploration rate never drops below the floor
  \<open>epsilonMin\<close>. The code decays whenever the rate is above the floor and does not clamp the
  product: one decision of an agent whose rate is 0.010000001 leaves the rate at
  0.009999970999997, below the floor 0.01, and an agent started at rate 1 gets below the
  floor after finitely many decays.
\<close>

theorem epsilon_drops_below_floor:
  "update zeroRng 0 nearFloorAgent =
     Inr (learnedAgent\<lparr> epsilon := 0.009999970999997 \<rparr>, 4)
   \<and> (0.009999970999997 :: real) < epsilonMin
   \<and> (\<exists>n. (decayEpsilon ^^ n) 1 < epsilonMin)"
  using update_fresh [of "0.010000001"] decay_reaches_below_floor
  by (simp add: nearFloorAgent_def freshAgent_def learnedAgent_def decayEpsilon_def
      epsilonMin_def epsilonDecay_def alpha_def)

section \<open>Reward shaping\<close>

text \<open>
  Claim C5, as amended. For every decision on a live game that does not end the episode,
  the reward passed to the value update (and added to the reward total) is the reward of
  the simulation step plus 0.8 if the Manhattan distance from the head to the target
  decreased, minus 0.8 if it increased, and unchanged if it is equal, where both distances
  are measured to the navigation target as it was before the move.
\<close>

theorem update_reward_shaping:
  assumes "\<not> isGameOver (state (game ag))"
    and "update rnd c ag = Inr (ag', c')"
    and "\<not> isGameOver (state (game ag'))"
  shows "\<exists>st a reward ag2 headBefore rest target headAfter rest' r c1.
     act rnd c ag = Inr (st, a, reward, ag2, c') \<and> learn st a reward ag2 = Inr ag' \<and>
     snake (state (game ag)) = headBefore # rest \<and> activeTarget (state (game ag)) = Some target \<and>
     step rnd c1 (directions ! a) (game ag) = Inr (r, game ag', c') \<and>
     snake (state (game ag')) = headAfter # rest' \<and>
     reward = r + (if manhattan headAfter target < manhattan headBefore target then 0.8
                   else if manhattan headAfter target > manhattan headBefore target then - 0.8
                   else 0) \<and>
     totalReward ag' = totalReward ag + reward"
proof -
  from assms(1,2) obtain st a reward ag2
    where a: "act rnd c ag = Inr (st, a, reward, ag2, c')"
      and l: "learn st a reward ag2 = Inr ag'"
    by (auto simp: update_def split: sum.splits prod.splits)
  from learn_frame [OF l] have fr: "game ag' = game ag2" "totalReward ag' = totalReward ag2"
    by simp_all
  with assms(3) have "\<not> isGameOver (state (game ag2))"
    by simp
  from act_reward [OF a this] fr a l show ?thesis
    by auto
qed

theorem update_reward_shaping_witness:
  "\<not> isGameOver (state (game freshAgent))
   \<and> update zeroRng 0 freshAgent = Inr (learnedAgent, 4)
   \<and> \<not> isGameOver (state (game learnedAgent))
   \<and> (\<exists>st a reward ag2 headBefore rest target headAfter rest' r c1.
     act zeroRng 0 freshAgent = Inr (st, a, reward, ag2, 4) \<and>
     learn st a reward ag2 = Inr learnedAgent \<and>
     snake (state (game freshAgent)) = headBefore # rest \<and>
     activeTarget (state (game freshAgent)) = Some target \<and>
     step zeroRng c1 (directions ! a) (game freshAgent) = Inr (r, game learnedAgent, 4) \<and>
     snake (state (game learnedAgent)) = headAfter # rest' \<and>
     reward = r + (if manhattan headAfter target < manhattan headBefore target then 0.8
                   else if manhattan headAfter target > manhattan headBefore target then - 0.8
                   else 0) \<and>
     totalReward learnedAgent = totalReward freshAgent + reward)"
proof -
  have h1: "\<not> isGameOver (state (game freshAgent))"
    by (simp add: freshAgent_def fresh_facts)
  have h3: "\<not> isGameOver (state (game learnedAgent))"
    by (simp add: learnedAgent_def goal_facts)
  from update_reward_shaping [OF h1 update_freshAgent h3] h1 h3 update_freshAgent
  show ?thesis
    by blast
qed

text \<open>
  The claim as stated fails: moving \<open>freshGame\<close> up consumes the goal (simulation reward
  30), and the goal moves to \<open>(0, 0)\<close>. The distance to the old target fell from 1 to 0, so
  the code uses 30.8; measured to the target after the move the distance rose from 1 to 29,
  for which the claim demands 29.2.
\<close>

theorem update_reward_shaping_counterexample:
  "act zeroRng 0 freshAgent =
     Inr (''CU01000100U'', 0, 30.8,
          freshAgent\<lparr> game := goalGame, totalReward := 30.8, totalStepsEver := 1 \<rparr>, 4)
   \<and> step zeroRng 2 UP freshGame = Inr (30, goalGame, 4)
   \<and> shapeReward_postMoveTarget 30 1 goalGame = Inr 29.2"
  using act_fresh [of 1] step_fresh
  by (simp add: freshAgent_def shapeReward_postMoveTarget_def goal_facts manhattan_def)

section \<open>The state fingerprint\<close>

text \<open>
  Claim C6. \<open>getStateString\<close> is a function of the game alone (it takes no random source
  and returns no new state), and its result depends only on the body, the goal, the portal
  fields and the wall table: two games that agree on these get the same fingerprint,
  whatever their step counters, scores, items, levels or other fields are.
\<close>

theorem getStateString_schema:
  "snake (state g) = snake (state g') \<Longrightarrow> food (state g) = food (state g') \<Longrightarrow>
   portalOpen (state g) = portalOpen (state g') \<Longrightarrow>
   portalPoint (state g) = portalPoint (state g') \<Longrightarrow> wallMap g = wallMap g' \<Longrightarrow>
   getStateString g = getStateString g'"
  by (simp add: getStateString_def activeTarget_def isBlocking_def isPointWall_def Let_def
      split: list.splits option.splits)

theorem getStateString_schema_witness:
  "snake (state earlyGame) = snake (state lateGame)
   \<and> food (state earlyGame) = food (state lateGame)
   \<and> portalOpen (state earlyGame) = portalOpen (state lateGame)
   \<and> portalPoint (state earlyGame) = portalPoint (state lateGame)
   \<and> wallMap earlyGame = wallMap lateGame
   \<and> steps (state earlyGame) \<noteq> steps (state lateGame)
   \<and> score (state earlyGame) \<noteq> score (state lateGame)
   \<and> map expires (specialItems (state earlyGame)) \<noteq> map expires (specialItems (state lateGame))
   \<and> getStateString earlyGame = getStateString lateGame"
  using getStateString_schema [of earlyGame lateGame]
  by (simp add: earlyGame_def lateGame_def freshGame_def freshState_def)

section \<open>Reading the value vector\<close>

text \<open>
  Claim C10, as amended. \<open>getCurrentStateQValues\<close> returns the table entry of the present
  fingerprint and changes nothing but that entry: the agent is unchanged when the
  fingerprint already has an entry; when it has none, the all-zero vector is stored for it,
  so the table gains exactly this one key.
\<close>

theorem getCurrentStateQValues_effect:
  "getStateString (game ag) = Inr st \<Longrightarrow>
   \<exists>q ag'. getCurrentStateQValues ag = Inr (q, ag') \<and> qTable ag' st = Some q
     \<and> ag' = ag\<lparr> qTable := (qTable ag)(st \<mapsto> q) \<rparr>
     \<and> (if st \<in> dom (qTable ag) then ag' = ag
         else q = [0, 0, 0, 0] \<and> dom (qTable ag') = insert st (dom (qTable ag)))"
  by (auto simp: getCurrentStateQValues_def getQValues_def fun_upd_idem split: option.splits)

theorem getCurrentStateQValues_effect_witness:
  "getStateString (game freshAgent) = Inr ''CU01000100U''
   \<and> (\<exists>q ag'. getCurrentStateQValues freshAgent = Inr (q, ag')
        \<and> qTable ag' ''CU01000100U'' = Some q
        \<and> ag' = freshAgent\<lparr> qTable := (qTable freshAgent)(''CU01000100U'' \<mapsto> q) \<rparr>
        \<and> (if ''CU01000100U'' \<in> dom (qTable freshAgent) then ag' = freshAgent
            else q = [0, 0, 0, 0]
              \<and> dom (qTable ag') = insert ''CU01000100U'' (dom (qTable freshAgent))))"
proof -
  have h: "getStateString (game freshAgent) = Inr ''CU01000100U''"
    by (simp add: freshAgent_def fingerprint_fresh)
  from getCurrentStateQValues_effect [OF h] h show ?thesis
    by blast
qed

text \<open>
  The claim as stated fails: on a new agent, whose table is empty, the query stores an entry
  for the present fingerprint, so the table grows from no key to one key.
\<close>

theorem getCurrentStateQValues_counterexample:
  "dom (qTable freshAgent) = {}
   \<and> getCurrentStateQValues freshAgent =
       Inr ([0, 0, 0, 0], freshAgent\<lparr> qTable := [''CU01000100U'' \<mapsto> [0, 0, 0, 0]] \<rparr>)
   \<and> dom (qTable (freshAgent\<lparr> qTable := [''CU01000100U'' \<mapsto> [0, 0, 0, 0]] \<rparr>))
       = {''CU01000100U''}"
  by (simp add: getCurrentStateQValues_def getQValues_def freshAgent_def fingerprint_fresh)

section \<open>Properties of the simulation\<close>

text \<open>
  Claim C1. On a game whose terminal flag is set, \<open>step\<close> returns the reward -20 for every
  direction and leaves the whole game (episode state and lookup table) and the random
  source untouched, so any number of further calls gives the same result.
\<close>

theorem step_terminal_idempotent:
  "isGameOver (state g) \<Longrightarrow> step rnd c d g = Inr (- 20, g, c)"
  by (simp add: step_def)

theorem step_terminal_idempotent_witness:
  "isGameOver (state overGame) \<and> step zeroRng 0 UP overGame = Inr (- 20, overGame, 0)"
  using step_terminal_idempotent [of overGame zeroRng 0 UP]
  by (simp add: overGame_def)

section \<open>Random open-cell selection\<close>

lemma randomIndex_range: "0 < k \<Longrightarrow> 0 \<le> randomIndex rnd c k \<and> randomIndex rnd c k < k"
proof -
  assume k: "0 < k"
  have f: "0 \<le> frac (rnd c)" "frac (rnd c) < 1"
    by (simp_all add: frac_lt_1)
  have "frac (rnd c) * real_of_int k < real_of_int k"
    using f k by simp
  then have "\<lfloor>frac (rnd c) * real_of_int k\<rfloor> < k"
    by (simp add: floor_less_iff)
  moreover have "0 \<le> \<lfloor>frac (rnd c) * real_of_int k\<rfloor>"
    using f k by simp
  ultimately show ?thesis
    by (simp add: randomIndex_def Math_random_def)
qed

lemma sampleLoop_open:
  "sampleLoop rnd wm snk otherItems attempts c = (Some p, c') \<Longrightarrow>
     openCell wm snk p \<and> p \<notin> set (map point otherItems)"
proof (induction rnd wm snk otherItems attempts c rule: sampleLoop.induct)
  case (1 rnd wm snk otherItems attempts c)
  show ?case
  proof (cases "attempts < 500")
    case False
    with "1.prems" show ?thesis
      by (subst (asm) sampleLoop.simps) simp
  next
    case True
    define q where "q = Point (randomIndex rnd c GRID_SIZE) (randomIndex rnd (c + 1) GRID_SIZE)"
    have inb: "inBoard (px q) (py q)"
      using randomIndex_range [of GRID_SIZE rnd c] randomIndex_range [of GRID_SIZE rnd "c + 1"]
      by (simp add: q_def inBoard_def GRID_SIZE_def)
    show ?thesis
    proof (cases "wallAt wm (px q) (py q) \<or> q \<in> set snk \<or> q \<in> set (map point otherItems)")
      case True
      with "1.prems" \<open>attempts < 500\<close>
      have "sampleLoop rnd wm snk otherItems (attempts + 1) (c + 2) = (Some p, c')"
        by (subst (asm) sampleLoop.simps) (auto simp: q_def Let_def split: if_splits)
      with "1.IH" True \<open>attempts < 500\<close> show ?thesis
        by (auto simp: q_def)
    next
      case False
      with "1.prems" \<open>attempts < 500\<close> have "p = q"
        by (subst (asm) sampleLoop.simps) (auto simp: q_def Let_def split: if_splits)
      with False inb show ?thesis
        by (simp add: openCell_def)
    qed
  qed
qed

lemma getRandomEmptyPoint_placed:
  "getRandomEmptyPoint rnd c wm snk otherItems = (p, c') \<Longrightarrow>
     c' = snd (sampleLoop rnd wm snk otherItems 0 c) \<and> placed rnd c wm snk otherItems p"
  by (auto simp: getRandomEmptyPoint_def placed_def split: prod.splits option.splits
      dest: sampleLoop_open)

lemma placed_open:
  "placed rnd c wm snk otherItems p \<Longrightarrow>
     fst (sampleLoop rnd wm snk otherItems 0 c) = None \<or>
     (openCell wm snk p \<and> p \<notin> set (map point otherItems))"
  by (auto simp: placed_def)

text \<open>When every draw from the cursor on is 0 and \<open>(0, 0)\<close> is taken, all samples fail.\<close>

lemma sampleLoop_exhausted:
  assumes zero: "\<And>n. c0 \<le> n \<Longrightarrow> rnd n = 0"
    and taken: "wallAt wm 0 0 \<or> Point 0 0 \<in> set snk \<or> Point 0 0 \<in> set (map point otherItems)"
  shows "c0 \<le> c \<Longrightarrow> attempts + k = 500 \<Longrightarrow>
     sampleLoop rnd wm snk otherItems attempts c = (None, c + 2 * k)"
proof (induction k arbitrary: attempts c)
  case 0
  then show ?case
    by (subst sampleLoop.simps) simp
next
  case (Suc k)
  from Suc.prems zero have draws: "rnd c = 0" "rnd (c + 1) = 0"
    by simp_all
  from Suc.prems have lt: "attempts < 500"
    by simp
  have next_call: "sampleLoop rnd wm snk otherItems (attempts + 1) (c + 2) = (None, c + 2 + 2 * k)"
    using Suc.prems by (intro Suc.IH) simp_all
  show ?case
    using lt taken draws next_call
    by (subst sampleLoop.simps)
       (auto simp: randomIndex_def Math_random_def GRID_SIZE_def Let_def)
qed

section \<open>The phases of a step\<close>

lemma tick_frame:
  "snake (tick s) = snake s" "portalOpen (tick s) = portalOpen s"
  "portalPoint (tick s) = portalPoint s" "food (tick s) = food s" "score (tick s) = score s"
  "specialItems (tick s) = specialItems s" "steps (tick s) = steps s + 1"
  "itemsCollectedInLevel (tick s) = itemsCollectedInLevel s"
  "isGameOver (tick s) = isGameOver s" "level (tick s) = level s" "walls (tick s) = walls s"
  by (simp_all add: tick_def)

lemma step_live:
  assumes "\<not> isGameOver (state g)"
    and "snake (state g) = h0 # body"
    and "\<not> deathCheck g (tick (state g)) (movePoint d h0)"
    and "\<not> (portalOpen (state g) \<and> portalPoint (state g) = Some (movePoint d h0))"
  shows "step rnd c d g =
     (let head = movePoint d h0;
          t1 = pickItem head (tick (state g), head # h0 # body, - 0.05);
          ((s2, newSnake, reward), c1) = consumeGoal rnd c (wallMap g) head t1;
          (s3, c2) = spawnItem rnd c1 (wallMap g) newSnake s2
      in Inr (reward,
              g\<lparr> state := s3\<lparr> specialItems :=
                                  filter (\<lambda>i. expires i > steps s3) (specialItems s3),
                                snake := newSnake \<rparr> \<rparr>,
              c2))"
  using assms by (auto simp: step_def Let_def tick_frame)

lemma pickedItemIndex_Some:
  "pickedItemIndex items h = Some i \<Longrightarrow> i < length items \<and> point (items ! i) = h"
  by (induction items arbitrary: i) (auto split: if_splits)

lemma pickedItemIndex_None:
  "pickedItemIndex items h = None \<Longrightarrow> h \<notin> set (map point items)"
  by (induction items) (auto split: if_splits)

lemma set_splice:
  "i < length xs \<Longrightarrow> set xs = insert (xs ! i) (set (take i xs @ drop (Suc i) xs))"
proof -
  assume "i < length xs"
  then have "xs = take i xs @ xs ! i # drop (Suc i) xs"
    by (simp add: id_take_nth_drop)
  then have "set xs = set (take i xs @ xs ! i # drop (Suc i) xs)"
    by simp
  then show ?thesis
    by simp
qed

lemma length_popN: "length (popN k xs) = length xs - k"
  by (induction k) (simp_all add: popN_def)

lemma popN_take: "popN k xs = take (length xs - k) xs"
proof (induction k)
  case 0
  then show ?case by (simp add: popN_def)
next
  case (Suc k)
  have "popN (Suc k) xs = butlast (popN k xs)"
    by (simp add: popN_def)
  also have "\<dots> = butlast (take (length xs - k) xs)"
    by (simp add: Suc)
  also have "\<dots> = take (length xs - Suc k) xs"
    by (simp add: butlast_take)
  finally show ?case .
qed

lemma popN_Cons: "k \<le> length xs \<Longrightarrow> popN k (x # xs) = x # popN k xs"
  by (simp add: popN_take Suc_diff_le)

lemma pickItem_result:
  "pickItem h (s, ns, r) = (sA, nsA, rA) \<Longrightarrow>
     score sA = score s + pickupScore (specialItems s) h \<and>
     specialItems sA = spliced (specialItems s) h \<and>
     nsA = shrunk (specialItems s) h ns \<and>
     food sA = food s \<and> itemsCollectedInLevel sA = itemsCollectedInLevel s \<and>
     portalOpen sA = portalOpen s \<and> portalPoint sA = portalPoint s \<and> steps sA = steps s"
  by (auto simp: pickItem_def applyItem_def pickupScore_def spliced_def shrunk_def Let_def
      split: option.splits ItemType.splits)

lemma pickItem_scissors:
  "pickItem h (s, ns, r) = (sA, nsA, rA) \<Longrightarrow> pickedItemIndex (specialItems s) h = Some i \<Longrightarrow>
   type (specialItems s ! i) = SCISSORS \<Longrightarrow> rA = 40 \<and> score sA = score s + 5"
  by (auto simp: pickItem_def applyItem_def Let_def)

lemma shrunk_Cons: "x \<in> set (shrunk items h (x # xs))"
proof -
  have "nat (min 3 (max 0 (int (length (x # xs)) - 5))) \<le> length xs"
    by simp
  then show ?thesis
    by (auto simp: shrunk_def popN_Cons simp del: length_Cons split: option.splits)
qed

lemma shrunk_Cons2: "\<exists>zs. shrunk items h (x # y # ys) = x # y # zs"
proof -
  have "nat (min 3 (max 0 (int (length (x # y # ys)) - 5))) \<le> length ys"
    by simp
  then have "popN (nat (min 3 (max 0 (int (length (x # y # ys)) - 5)))) (x # y # ys) =
      x # y # popN (nat (min 3 (max 0 (int (length (x # y # ys)) - 5)))) ys"
    by (simp add: popN_Cons del: length_Cons)
  then show ?thesis
    by (auto simp: shrunk_def split: option.splits)
qed

lemma length_shrunk:
  "int (length (shrunk items h ns)) =
     (case pickedItemIndex items h of
        None \<Rightarrow> int (length ns)
      | Some i \<Rightarrow>
          (if type (items ! i) = SCISSORS
           then int (length ns) - min 3 (max 0 (int (length ns) - 5)) else int (length ns)))"
  by (auto simp: shrunk_def length_popN split: option.splits)

lemma not_on_items:
  "p \<notin> set (map point (spliced items h)) \<Longrightarrow> p \<noteq> h \<Longrightarrow> p \<notin> set (map point items)"
proof (cases "pickedItemIndex items h")
  case None
  assume "p \<notin> set (map point (spliced items h))"
  with None show ?thesis
    by (simp add: spliced_def)
next
  case (Some i)
  assume a: "p \<notin> set (map point (spliced items h))" and b: "p \<noteq> h"
  from Some have i: "i < length items" "point (items ! i) = h"
    by (simp_all add: pickedItemIndex_Some)
  from set_splice [OF i(1)] have "set items = insert (items ! i) (set (spliced items h))"
    by (simp add: spliced_def Some)
  with a b i(2) show ?thesis
    by auto
qed

lemma spliced_subset: "set (spliced items h) \<subseteq> set items"
  by (auto simp: spliced_def split: option.splits dest: in_set_takeD in_set_dropD)

lemma consumeGoal_goal:
  assumes "h = food s"
  shows "\<exists>s' c'. consumeGoal rnd c wm h (s, ns, r) = ((s', ns, 30), c')
     \<and> score s' = score s + 1
     \<and> itemsCollectedInLevel s' = itemsCollectedInLevel s + 1
     \<and> specialItems s' = specialItems s \<and> steps s' = steps s
     \<and> (let opens = (itemsCollectedInLevel s + 1 \<ge> LEVEL_GOAL \<and> \<not> portalOpen s);
             cf = (if opens then snd (sampleLoop rnd wm ns (specialItems s) 0 c) else c)
         in c' = snd (sampleLoop rnd wm ns (specialItems s) 0 cf)
            \<and> placed rnd cf wm ns (specialItems s) (food s')
            \<and> (if opens
                then portalOpen s' \<and>
                     (\<exists>p. portalPoint s' = Some p \<and> placed rnd c wm ns (specialItems s) p)
                else portalOpen s' = portalOpen s \<and> portalPoint s' = portalPoint s))"
proof (cases "itemsCollectedInLevel s + 1 \<ge> LEVEL_GOAL \<and> \<not> portalOpen s")
  case True
  obtain p c1 where p: "getRandomEmptyPoint rnd c wm ns (specialItems s) = (p, c1)"
    by (cases "getRandomEmptyPoint rnd c wm ns (specialItems s)")
  obtain f c2 where f: "getRandomEmptyPoint rnd c1 wm ns (specialItems s) = (f, c2)"
    by (cases "getRandomEmptyPoint rnd c1 wm ns (specialItems s)")
  from True p f assms
  have "consumeGoal rnd c wm h (s, ns, r) =
          ((s\<lparr> score := score s + 1, itemsCollectedInLevel := itemsCollectedInLevel s + 1,
                portalOpen := True, portalPoint := Some p, food := f \<rparr>, ns, 30), c2)"
    by (simp add: consumeGoal_def Let_def)
  with True getRandomEmptyPoint_placed [OF p] getRandomEmptyPoint_placed [OF f] show ?thesis
    by (simp add: Let_def)
next
  case False
  obtain f c2 where f: "getRandomEmptyPoint rnd c wm ns (specialItems s) = (f, c2)"
    by (cases "getRandomEmptyPoint rnd c wm ns (specialItems s)")
  from False f assms
  have "consumeGoal rnd c wm h (s, ns, r) =
          ((s\<lparr> score := score s + 1, itemsCollectedInLevel := itemsCollectedInLevel s + 1,
                food := f \<rparr>, ns, 30), c2)"
    by (auto simp: consumeGoal_def Let_def)
  with False getRandomEmptyPoint_placed [OF f] show ?thesis
    by (auto simp: Let_def)
qed

lemma consumeGoal_goal_score:
  assumes "h = food s"
  shows "\<exists>s' c'. consumeGoal rnd c wm h (s, ns, r) = ((s', ns, 30), c') \<and> score s' = score s + 1"
  using consumeGoal_goal [OF assms, of rnd c wm ns r] by blast

lemma consumeGoal_other:
  "h \<noteq> food s \<Longrightarrow> consumeGoal rnd c wm h (s, ns, r) = ((s, butlast ns, r), c)"
  by (simp add: consumeGoal_def)

lemma spawnItem_frame:
  "spawnItem rnd c wm ns s = (s', c') \<Longrightarrow>
     score s' = score s \<and> food s' = food s \<and>
     itemsCollectedInLevel s' = itemsCollectedInLevel s \<and>
     portalOpen s' = portalOpen s \<and> portalPoint s' = portalPoint s \<and> steps s' = steps s"
  by (auto simp: spawnItem_def Let_def split: if_splits prod.splits)

lemma spawnItem_items:
  "spawnItem rnd c wm ns s = (s', c') \<Longrightarrow>
     list_all (\<lambda>it. it \<in> set (specialItems s) \<or> placed rnd (c + 2) wm ns (specialItems s) (point it))
       (specialItems s')"
  by (auto simp: spawnItem_def Let_def list_all_iff split: if_splits prod.splits
      dest!: getRandomEmptyPoint_placed)

section \<open>A replay that puts an item on the goal cell\<close>

lemma sample_spawn:
  "c = 0 \<or> c = 4 \<Longrightarrow> Point 16 14 \<notin> set snk \<Longrightarrow> Point 16 14 \<notin> set (map point its) \<Longrightarrow>
   getRandomEmptyPoint spawnRng c emptyWallMap snk its = (Point 16 14, c + 2)"
  unfolding getRandomEmptyPoint_def
  by (subst sampleLoop.simps)
     (auto simp: randomIndex_def Math_random_def spawnRng_def GRID_SIZE_def wallAt_empty frac_def)

lemma new_game: "newSnakeGame spawnRng 0 1 = (startGame, 2)"
  by (simp add: newSnakeGame_def updateWallMap_def getInitialState_def getLevelWalls_def
      sample_spawn spawnSnake_def startGame_def freshState_def)

lemmas run_defs = step_def tick_def deathCheck_def movePoint_def GRID_SIZE_def
  wallAt_empty maxSteps_def pickItem_def consumeGoal_def spawnItem_def freshState_def
  spawnSnake_def

lemma first_lap: "play rnd lap startGame c = Inr (loopGame 4, c)"
  by (simp add: lap_def startGame_def loopGame_def run_defs)

lemma loop_lap:
  "0 \<le> k \<Longrightarrow> k + 4 < 75 \<Longrightarrow> play rnd lap (loopGame k) c = Inr (loopGame (k + 4), c)"
  by (simp add: lap_def loopGame_def run_defs mod_pos_pos_trivial)

lemma play_append:
  "play rnd (xs @ ys) g c =
     (case play rnd xs g c of Inl e \<Rightarrow> Inl e | Inr (g', c') \<Rightarrow> play rnd ys g' c')"
  by (induction xs arbitrary: g c) (auto split: sum.splits)

lemma loop_laps:
  "0 \<le> k \<Longrightarrow> k + 4 * int n < 75 \<Longrightarrow>
   play rnd (concat (replicate n lap)) (loopGame k) c = Inr (loopGame (k + 4 * int n), c)"
proof (induction n arbitrary: k)
  case 0
  then show ?case by simp
next
  case (Suc n)
  from Suc.prems have "play rnd lap (loopGame k) c = Inr (loopGame (k + 4), c)"
    by (intro loop_lap) auto
  moreover from Suc.prems
  have "play rnd (concat (replicate n lap)) (loopGame (k + 4)) c =
          Inr (loopGame (k + 4 + 4 * int n), c)"
    by (intro Suc.IH) auto
  ultimately show ?case
    by (simp add: play_append algebra_simps)
qed

lemma play_to_preSpawn: "play rnd [LEFT, UP] (loopGame 72) c = Inr (preSpawnGame, c)"
  by (simp add: loopGame_def preSpawnGame_def run_defs)

lemma step_spawn: "step spawnRng 2 RIGHT preSpawnGame = Inr (- 0.05, spawnedGame, 6)"
  by (simp add: preSpawnGame_def spawnedGame_def run_defs sample_spawn spawnRng_def
      Math_random_def randomIndex_def itemTypes_def)

lemma last_moves: "play spawnRng [LEFT, UP, RIGHT] (loopGame 72) 2 = Inr (spawnedGame, 6)"
  using play_append [of spawnRng "[LEFT, UP]" "[RIGHT]" "loopGame 72" 2]
  by (simp add: play_to_preSpawn step_spawn del: play.simps) (simp add: step_spawn)

lemma play_moves75: "play spawnRng moves75 startGame 2 = Inr (spawnedGame, 6)"
  using loop_laps [of 4 17 spawnRng 2]
  by (simp add: moves75_def play_append first_lap last_moves del: play.simps)

lemma sample_origin:
  "6 \<le> c \<Longrightarrow> Point 0 0 \<notin> set snk \<Longrightarrow> Point 0 0 \<notin> set (map point its) \<Longrightarrow>
   getRandomEmptyPoint spawnRng c emptyWallMap snk its = (Point 0 0, c + 2)"
  unfolding getRandomEmptyPoint_def
  by (subst sampleLoop.simps)
     (auto simp: randomIndex_def Math_random_def spawnRng_def GRID_SIZE_def wallAt_empty)

lemma step_feast: "step spawnRng 6 RIGHT spawnedGame = Inr (30, feastGame, 8)"
  by (simp add: spawnedGame_def feastGame_def run_defs sample_origin applyItem_def LEVEL_GOAL_def)

lemma step_moved_goal: "step spawnRng 4 UP freshGame = Inr (30, movedGoalGame, 6)"
  by (simp add: freshGame_def movedGoalGame_def run_defs sample_spawn LEVEL_GOAL_def)

text \<open>The second replay: the item lands on \<open>(0, 0)\<close>, and the relocated goal falls back onto it.\<close>

lemma origin_new_game: "newSnakeGame originRng 0 1 = (startGame, 2)"
proof -
  have "getRandomEmptyPoint originRng 0 emptyWallMap spawnSnake [] = (Point 16 14, 2)"
    unfolding getRandomEmptyPoint_def
    by (subst sampleLoop.simps)
       (simp add: randomIndex_def Math_random_def originRng_def GRID_SIZE_def wallAt_empty
          frac_def spawnSnake_def)
  then show ?thesis
    by (simp add: newSnakeGame_def updateWallMap_def getInitialState_def getLevelWalls_def
        startGame_def freshState_def)
qed

lemma origin_sample:
  "2 \<le> c \<Longrightarrow> Point 0 0 \<notin> set snk \<Longrightarrow> Point 0 0 \<notin> set (map point its) \<Longrightarrow>
   getRandomEmptyPoint originRng c emptyWallMap snk its = (Point 0 0, c + 2)"
  unfolding getRandomEmptyPoint_def
  by (subst sampleLoop.simps)
     (auto simp: randomIndex_def Math_random_def originRng_def GRID_SIZE_def wallAt_empty)

lemma origin_step_spawn: "step originRng 2 RIGHT preSpawnGame = Inr (- 0.05, originItemGame, 6)"
  by (simp add: preSpawnGame_def originItemGame_def run_defs origin_sample originRng_def
      Math_random_def randomIndex_def itemTypes_def)

lemma origin_play_moves75: "play originRng moves75 startGame 2 = Inr (originItemGame, 6)"
proof -
  have "play originRng [LEFT, UP, RIGHT] (loopGame 72) 2 = Inr (originItemGame, 6)"
    using play_append [of originRng "[LEFT, UP]" "[RIGHT]" "loopGame 72" 2]
    by (simp add: play_to_preSpawn del: play.simps) (simp add: origin_step_spawn)
  with loop_laps [of 4 17 originRng 2] show ?thesis
    by (simp add: moves75_def play_append first_lap del: play.simps)
qed

lemma origin_exhausted:
  "Point 0 0 \<in> set (map point its) \<Longrightarrow>
   sampleLoop originRng emptyWallMap snk its 0 6 = (None, 1006)"
  using sampleLoop_exhausted [of 2 originRng emptyWallMap snk its 6 0 500]
  by (simp add: originRng_def)

lemma origin_step_fallback: "step originRng 6 RIGHT originItemGame = Inr (30, fallbackGame, 1006)"
  by (simp add: originItemGame_def fallbackGame_def run_defs LEVEL_GOAL_def
      getRandomEmptyPoint_def origin_exhausted Let_def)

text \<open>The goal in the corner: every sample is the cell under the new head.\<close>

lemma corner_exhausted:
  "Point 0 0 \<in> set snk \<Longrightarrow> sampleLoop zeroRng emptyWallMap snk its 0 0 = (None, 1000)"
  using sampleLoop_exhausted [of 0 zeroRng emptyWallMap snk its 0 0 500]
  by (simp add: zeroRng_def)

lemma step_corner: "step zeroRng 0 LEFT cornerGame = Inr (30, corneredGame, 1000)"
  by (simp add: cornerGame_def corneredGame_def run_defs LEVEL_GOAL_def
      getRandomEmptyPoint_def corner_exhausted Let_def)

section \<open>Goal consumption\<close>

text \<open>
  Claim C2, as amended. On a live game, when the candidate head is the goal cell and the
  step neither ends the episode nor enters the portal, the step returns the reward 30,
  raises the score by 1 plus the score of an item picked up on that cell (by exactly 1 when no
  item lies there), raises the per-level progress by 1 and keeps the prepended body (cut
  only by a \<open>SCISSORS\<close> pickup). The goal moves to the outcome of the random open-cell
  selection: the first accepted sample, which is a cell of the board that differs from the
  old goal and is not an obstacle, not on the new body and not the cell of an item, or the
  fallback \<open>(0, 0)\<close> when all 500 samples were rejected. When the progress reaches 10 and
  the portal is closed, the portal opens on the outcome of a selection made just before
  that of the goal; otherwise the portal fields are unchanged.
\<close>

theorem step_goal_consumed:
  assumes live: "\<not> isGameOver (state g)"
    and sn: "snake (state g) = h0 # body"
    and alive: "\<not> deathCheck g (tick (state g)) (movePoint d h0)"
    and noportal: "\<not> (portalOpen (state g) \<and> portalPoint (state g) = Some (movePoint d h0))"
    and goal: "movePoint d h0 = food (state g)"
  shows "\<exists>g' c'. step rnd c d g = Inr (30, g', c')
     \<and> score (state g') =
         score (state g) + 1 + pickupScore (specialItems (state g)) (movePoint d h0)
     \<and> itemsCollectedInLevel (state g') = itemsCollectedInLevel (state g) + 1
     \<and> snake (state g') =
         shrunk (specialItems (state g)) (movePoint d h0) (movePoint d h0 # snake (state g))
     \<and> (let its = spliced (specialItems (state g)) (movePoint d h0);
             ns = snake (state g');
             opens = (itemsCollectedInLevel (state g) + 1 \<ge> LEVEL_GOAL \<and>
                      \<not> portalOpen (state g));
             cf = (if opens then snd (sampleLoop rnd (wallMap g) ns its 0 c) else c)
         in placed rnd cf (wallMap g) ns its (food (state g'))
            \<and> (fst (sampleLoop rnd (wallMap g) ns its 0 cf) = None \<or>
                 (food (state g') \<noteq> food (state g) \<and>
                  food (state g') \<notin> set (map point (specialItems (state g)))))
            \<and> (if opens
                then portalOpen (state g') \<and>
                     (\<exists>p. portalPoint (state g') = Some p \<and> placed rnd c (wallMap g) ns its p)
                else portalOpen (state g') = portalOpen (state g) \<and>
                     portalPoint (state g') = portalPoint (state g)))"
proof -
  let ?h = "movePoint d h0"
  obtain sA nsA rA where pk: "pickItem ?h (tick (state g), ?h # h0 # body, - 0.05) = (sA, nsA, rA)"
    by (cases "pickItem ?h (tick (state g), ?h # h0 # body, - 0.05)") auto
  note pr = pickItem_result [OF pk, unfolded tick_frame]
  from pr goal have hf: "?h = food sA"
    by simp
  define opens where
    "opens = (itemsCollectedInLevel sA + 1 \<ge> LEVEL_GOAL \<and> \<not> portalOpen sA)"
  define cf where
    "cf = (if opens then snd (sampleLoop rnd (wallMap g) nsA (specialItems sA) 0 c) else c)"
  from consumeGoal_goal [OF hf, of rnd c "wallMap g" nsA rA] obtain sB c1
    where cg: "consumeGoal rnd c (wallMap g) ?h (sA, nsA, rA) = ((sB, nsA, 30), c1)"
      and sc: "score sB = score sA + 1"
      and ic: "itemsCollectedInLevel sB = itemsCollectedInLevel sA + 1"
      and fd: "placed rnd cf (wallMap g) nsA (specialItems sA) (food sB)"
      and po: "(if opens
                then portalOpen sB \<and>
                     (\<exists>p. portalPoint sB = Some p \<and>
                        placed rnd c (wallMap g) nsA (specialItems sA) p)
                else portalOpen sB = portalOpen sA \<and> portalPoint sB = portalPoint sA)"
    unfolding opens_def cf_def Let_def by blast
  obtain sC c2 where sp: "spawnItem rnd c1 (wallMap g) nsA sB = (sC, c2)"
    by (cases "spawnItem rnd c1 (wallMap g) nsA sB")
  note sf = spawnItem_frame [OF sp]
  define g' where "g' = g\<lparr> state := sC\<lparr> specialItems :=
      filter (\<lambda>i. expires i > steps sC) (specialItems sC), snake := nsA \<rparr> \<rparr>"
  have st: "step rnd c d g = Inr (30, g', c2)"
    using step_live [OF live sn alive noportal, of rnd c] pk cg sp
    by (simp add: Let_def g'_def)
  have hin: "?h \<in> set nsA"
    using pr shrunk_Cons [of ?h "specialItems (state g)" ?h "h0 # body"] by simp
  have g'facts: "score (state g') = score sB" "food (state g') = food sB"
    "itemsCollectedInLevel (state g') = itemsCollectedInLevel sB"
    "portalOpen (state g') = portalOpen sB" "portalPoint (state g') = portalPoint sB"
    "snake (state g') = nsA"
    using sf by (simp_all add: g'_def)
  have its: "specialItems sA = spliced (specialItems (state g)) ?h"
    and ns: "nsA = shrunk (specialItems (state g)) ?h (?h # snake (state g))"
    using pr sn by simp_all
  have opens: "opens = (itemsCollectedInLevel (state g) + 1 \<ge> LEVEL_GOAL \<and>
      \<not> portalOpen (state g))"
    using pr by (simp add: opens_def)
  have fresh: "fst (sampleLoop rnd (wallMap g) nsA (specialItems sA) 0 cf) = None \<or>
      (food sB \<noteq> food (state g) \<and> food sB \<notin> set (map point (specialItems (state g))))"
  proof -
    from placed_open [OF fd]
    show ?thesis
    proof
      assume "fst (sampleLoop rnd (wallMap g) nsA (specialItems sA) 0 cf) = None"
      then show ?thesis
        by simp
    next
      assume a: "openCell (wallMap g) nsA (food sB) \<and>
          food sB \<notin> set (map point (specialItems sA))"
      with hin have ne: "food sB \<noteq> ?h"
        by (auto simp: openCell_def)
      with a its have "food sB \<notin> set (map point (specialItems (state g)))"
        using not_on_items [of "food sB" "specialItems (state g)" ?h] by simp
      with ne goal show ?thesis
        by simp
    qed
  qed
  have c1: "score (state g') =
         score (state g) + 1 + pickupScore (specialItems (state g)) ?h"
    using g'facts sc pr by simp
  have c2: "itemsCollectedInLevel (state g') = itemsCollectedInLevel (state g) + 1"
    using g'facts ic pr by simp
  have c3: "snake (state g') =
         shrunk (specialItems (state g)) ?h (?h # snake (state g))"
    using g'facts ns by simp
  have c4: "(let its = spliced (specialItems (state g)) ?h;
             ns = snake (state g');
             opens = (itemsCollectedInLevel (state g) + 1 \<ge> LEVEL_GOAL \<and>
                      \<not> portalOpen (state g));
             cf = (if opens then snd (sampleLoop rnd (wallMap g) ns its 0 c) else c)
         in placed rnd cf (wallMap g) ns its (food (state g'))
            \<and> (fst (sampleLoop rnd (wallMap g) ns its 0 cf) = None \<or>
                 (food (state g') \<noteq> food (state g) \<and>
                  food (state g') \<notin> set (map point (specialItems (state g)))))
            \<and> (if opens
                then portalOpen (state g') \<and>
                     (\<exists>p. portalPoint (state g') = Some p \<and> placed rnd c (wallMap g) ns its p)
                else portalOpen (state g') = portalOpen (state g) \<and>
                     portalPoint (state g') = portalPoint (state g)))"
    using fd fresh po pr
    unfolding Let_def g'facts its [symmetric] opens [symmetric] cf_def [symmetric]
    by (simp split: if_splits)
  from st c1 c2 c3 c4 show ?thesis
    by blast
qed

theorem step_goal_consumed_witness:
  "\<not> isGameOver (state freshGame)
   \<and> snake (state freshGame) = Point 15 15 # [Point 15 16, Point 15 17]
   \<and> \<not> deathCheck freshGame (tick (state freshGame)) (movePoint UP (Point 15 15))
   \<and> \<not> (portalOpen (state freshGame) \<and>
          portalPoint (state freshGame) = Some (movePoint UP (Point 15 15)))
   \<and> movePoint UP (Point 15 15) = food (state freshGame)
   \<and> movePoint UP (Point 15 15) = Point 15 14
   \<and> step spawnRng 4 UP freshGame = Inr (30, movedGoalGame, 6)
   \<and> food (state movedGoalGame) = Point 16 14
   \<and> (\<exists>g' c'. step spawnRng 4 UP freshGame = Inr (30, g', c')
     \<and> score (state g') =
         score (state freshGame) + 1 + pickupScore (specialItems (state freshGame)) (Point 15 14)
     \<and> itemsCollectedInLevel (state g') = itemsCollectedInLevel (state freshGame) + 1
     \<and> snake (state g') =
         shrunk (specialItems (state freshGame)) (Point 15 14) (Point 15 14 # snake (state freshGame))
     \<and> (let its = spliced (specialItems (state freshGame)) (Point 15 14);
             ns = snake (state g');
             opens = (itemsCollectedInLevel (state freshGame) + 1 \<ge> LEVEL_GOAL \<and>
                      \<not> portalOpen (state freshGame));
             cf = (if opens then snd (sampleLoop spawnRng (wallMap freshGame) ns its 0 4) else 4)
         in placed spawnRng cf (wallMap freshGame) ns its (food (state g'))
            \<and> (fst (sampleLoop spawnRng (wallMap freshGame) ns its 0 cf) = None \<or>
                 (food (state g') \<noteq> food (state freshGame) \<and>
                  food (state g') \<notin> set (map point (specialItems (state freshGame)))))
            \<and> (if opens
                then portalOpen (state g') \<and>
                     (\<exists>p. portalPoint (state g') = Some p \<and> placed spawnRng 4 (wallMap freshGame) ns its p)
                else portalOpen (state g') = portalOpen (state freshGame) \<and>
                     portalPoint (state g') = portalPoint (state freshGame))))"
proof -
  have h1: "\<not> isGameOver (state freshGame)"
    and h2: "snake (state freshGame) = Point 15 15 # [Point 15 16, Point 15 17]"
    and h4: "\<not> (portalOpen (state freshGame) \<and>
          portalPoint (state freshGame) = Some (movePoint UP (Point 15 15)))"
    and h5: "movePoint UP (Point 15 15) = food (state freshGame)"
    and h6: "movePoint UP (Point 15 15) = Point 15 14"
    and h7: "food (state movedGoalGame) = Point 16 14"
    by (simp_all add: freshGame_def movedGoalGame_def freshState_def spawnSnake_def
        movePoint_def)
  have h3: "\<not> deathCheck freshGame (tick (state freshGame)) (movePoint UP (Point 15 15))"
    by (simp add: deathCheck_def tick_def freshGame_def freshState_def spawnSnake_def
        movePoint_def GRID_SIZE_def maxSteps_def wallAt_empty)
  note inst = step_goal_consumed [OF h1 h2 h3 h4 h5, of spawnRng 4, unfolded h6]
  from inst h1 h2 h3 h4 h5 h6 h7 step_moved_goal show ?thesis
    by blast
qed

text \<open>
  The claim as stated fails in two ways. The game \<open>spawnedGame\<close> is reached from
  construction by 75 moves; its goal cell \<open>(16, 14)\<close> also holds a \<open>GOLD\<close> item, and the move
  to the right consumes both: the reward is 30, but the score rises from 0 to 16, not by
  exactly 1. And on \<open>cornerGame\<close>, where the goal lies on \<open>(0, 0)\<close> left of the head, a
  relocation whose draws are all 0 rejects its 500 samples (each is the cell under the new
  head) and falls back to \<open>(0, 0)\<close>: the goal stays where it was, on the body, which is
  neither a new nor an open cell.
\<close>

theorem step_goal_consumed_counterexample:
  "newSnakeGame spawnRng 0 1 = (startGame, 2)
   \<and> play spawnRng moves75 startGame 2 = Inr (spawnedGame, 6)
   \<and> \<not> isGameOver (state spawnedGame)
   \<and> \<not> portalOpen (state spawnedGame)
   \<and> hd (snake (state spawnedGame)) = Point 15 14
   \<and> movePoint RIGHT (Point 15 14) = food (state spawnedGame)
   \<and> score (state spawnedGame) = 0
   \<and> step spawnRng 6 RIGHT spawnedGame = Inr (30, feastGame, 8)
   \<and> \<not> isGameOver (state feastGame)
   \<and> score (state feastGame) = 16
   \<and> \<not> isGameOver (state cornerGame)
   \<and> \<not> portalOpen (state cornerGame)
   \<and> hd (snake (state cornerGame)) = Point 1 0
   \<and> movePoint LEFT (Point 1 0) = food (state cornerGame)
   \<and> step zeroRng 0 LEFT cornerGame = Inr (30, corneredGame, 1000)
   \<and> \<not> isGameOver (state corneredGame)
   \<and> food (state corneredGame) = food (state cornerGame)
   \<and> food (state corneredGame) \<in> set (snake (state corneredGame))"
  using new_game play_moves75 step_feast step_corner
  by (simp add: spawnedGame_def feastGame_def cornerGame_def corneredGame_def freshState_def
      movePoint_def)

section \<open>The cutting item\<close>

text \<open>
  Claim C3, as amended. On a live game whose candidate head lands on a \<open>SCISSORS\<close> item
  (and the step neither ends the episode nor enters the portal), the step adds 5 to the
  score (and 1 more if the goal is consumed too), returns 40 unless the goal is consumed too
  (then 30), and cuts the prepended body of length \<open>L + 1\<close> by \<open>min 3 (max 0 (L + 1 - 5))\<close>
  segments, that is down to a floor of 5 before the tail drop. After the tail drop of a step
  without goal the body has 4 segments when \<open>L\<close> was 5, 6 or 7; after the full step the
  body length is never below 4 for a body that had length at least 4.
\<close>

theorem step_scissors:
  assumes live: "\<not> isGameOver (state g)"
    and sn: "snake (state g) = h0 # body"
    and alive: "\<not> deathCheck g (tick (state g)) (movePoint d h0)"
    and noportal: "\<not> (portalOpen (state g) \<and> portalPoint (state g) = Some (movePoint d h0))"
    and pick: "pickedItemIndex (specialItems (state g)) (movePoint d h0) = Some i"
    and ty: "type (specialItems (state g) ! i) = SCISSORS"
  shows "\<exists>r g' c'. step rnd c d g = Inr (r, g', c')
     \<and> score (state g') = score (state g) + 5 + (if movePoint d h0 = food (state g) then 1 else 0)
     \<and> r = (if movePoint d h0 = food (state g) then 30 else 40)
     \<and> int (length (snake (state g'))) =
         int (length (snake (state g))) + 1
         - min 3 (max 0 (int (length (snake (state g))) + 1 - 5))
         - (if movePoint d h0 = food (state g) then 0 else 1)
     \<and> min 4 (int (length (snake (state g)))) \<le> int (length (snake (state g')))"
proof -
  let ?h = "movePoint d h0"
  obtain sA nsA rA where pk: "pickItem ?h (tick (state g), ?h # h0 # body, - 0.05) = (sA, nsA, rA)"
    by (cases "pickItem ?h (tick (state g), ?h # h0 # body, - 0.05)") auto
  note pr = pickItem_result [OF pk, unfolded tick_frame]
  from pickItem_scissors [OF pk] pick ty have rA: "rA = 40" and scA: "score sA = score (state g) + 5"
    by (simp_all add: tick_frame)
  have len: "int (length nsA) =
      int (length (snake (state g))) + 1 - min 3 (max 0 (int (length (snake (state g))) + 1 - 5))"
    using pr length_shrunk [of "specialItems (state g)" ?h "?h # h0 # body"] pick ty sn
    by simp
  show ?thesis
  proof (cases "?h = food (state g)")
    case True
    with pr have hf: "?h = food sA"
      by simp
    from consumeGoal_goal_score [OF hf, of rnd c "wallMap g" nsA rA] obtain sB c1
      where cg: "consumeGoal rnd c (wallMap g) ?h (sA, nsA, rA) = ((sB, nsA, 30), c1)"
        and sc: "score sB = score sA + 1"
      by blast
    obtain sC c2 where sp: "spawnItem rnd c1 (wallMap g) nsA sB = (sC, c2)"
      by (cases "spawnItem rnd c1 (wallMap g) nsA sB")
    note sf = spawnItem_frame [OF sp]
    define g' where "g' = g\<lparr> state := sC\<lparr> specialItems :=
        filter (\<lambda>i. expires i > steps sC) (specialItems sC), snake := nsA \<rparr> \<rparr>"
    have st: "step rnd c d g = Inr (30, g', c2)"
      using step_live [OF live sn alive noportal, of rnd c] pk cg sp
      by (simp add: Let_def g'_def)
    have "score (state g') = score (state g) + 5 + 1" "snake (state g') = nsA"
      using sf sc scA by (simp_all add: g'_def)
    with st True len show ?thesis
      by auto
  next
    case False
    with pr have hf: "?h \<noteq> food sA"
      by simp
    have cg: "consumeGoal rnd c (wallMap g) ?h (sA, nsA, rA) = ((sA, butlast nsA, 40), c)"
      using consumeGoal_other [OF hf] rA by simp
    obtain sC c2 where sp: "spawnItem rnd c (wallMap g) (butlast nsA) sA = (sC, c2)"
      by (cases "spawnItem rnd c (wallMap g) (butlast nsA) sA")
    note sf = spawnItem_frame [OF sp]
    define g' where "g' = g\<lparr> state := sC\<lparr> specialItems :=
        filter (\<lambda>i. expires i > steps sC) (specialItems sC), snake := butlast nsA \<rparr> \<rparr>"
    have st: "step rnd c d g = Inr (40, g', c2)"
      using step_live [OF live sn alive noportal, of rnd c] pk cg sp
      by (simp add: Let_def g'_def)
    have "score (state g') = score (state g) + 5" "snake (state g') = butlast nsA"
      using sf scA by (simp_all add: g'_def)
    moreover have "int (length (butlast nsA)) = int (length nsA) - 1"
      using len sn by (cases nsA) auto
    ultimately show ?thesis
      using st False len by auto
  qed
qed

theorem step_scissors_witness:
  "\<not> isGameOver (state scissorsGame)
   \<and> snake (state scissorsGame) =
       Point 15 15 # [Point 15 16, Point 15 17, Point 15 18, Point 15 19]
   \<and> \<not> deathCheck scissorsGame (tick (state scissorsGame)) (movePoint UP (Point 15 15))
   \<and> \<not> (portalOpen (state scissorsGame) \<and>
          portalPoint (state scissorsGame) = Some (movePoint UP (Point 15 15)))
   \<and> pickedItemIndex (specialItems (state scissorsGame)) (movePoint UP (Point 15 15)) = Some 0
   \<and> type (specialItems (state scissorsGame) ! 0) = SCISSORS
   \<and> movePoint UP (Point 15 15) = Point 15 14
   \<and> (\<exists>r g' c'. step zeroRng 0 UP scissorsGame = Inr (r, g', c')
     \<and> score (state g') = score (state scissorsGame) + 5 + (if Point 15 14 = food (state scissorsGame) then 1 else 0)
     \<and> r = (if Point 15 14 = food (state scissorsGame) then 30 else 40)
     \<and> int (length (snake (state g'))) =
         int (length (snake (state scissorsGame))) + 1
         - min 3 (max 0 (int (length (snake (state scissorsGame))) + 1 - 5))
         - (if Point 15 14 = food (state scissorsGame) then 0 else 1)
     \<and> min 4 (int (length (snake (state scissorsGame)))) \<le> int (length (snake (state g'))))"
proof -
  have h1: "\<not> isGameOver (state scissorsGame)"
    and h2: "snake (state scissorsGame) =
       Point 15 15 # [Point 15 16, Point 15 17, Point 15 18, Point 15 19]"
    and h4: "\<not> (portalOpen (state scissorsGame) \<and>
          portalPoint (state scissorsGame) = Some (movePoint UP (Point 15 15)))"
    and h5: "pickedItemIndex (specialItems (state scissorsGame)) (movePoint UP (Point 15 15))
               = Some 0"
    and h6: "type (specialItems (state scissorsGame) ! 0) = SCISSORS"
    and h7: "movePoint UP (Point 15 15) = Point 15 14"
    by (simp_all add: scissorsGame_def freshState_def movePoint_def)
  have h3: "\<not> deathCheck scissorsGame (tick (state scissorsGame)) (movePoint UP (Point 15 15))"
    by (simp add: deathCheck_def tick_def scissorsGame_def freshState_def
        movePoint_def GRID_SIZE_def maxSteps_def wallAt_empty)
  from step_scissors [OF h1 h2 h3 h4 h5 h6, of zeroRng 0] h1 h2 h3 h4 h5 h6 h7 show ?thesis
    by simp
qed

text \<open>
  The claim as stated fails: a body of length 5 that moves onto a \<open>SCISSORS\<close> item (no goal
  consumed) is cut from 6 to 5 segments and then loses its tail, which leaves 4.
\<close>

theorem step_scissors_counterexample:
  "length (snake (state scissorsGame)) = 5
   \<and> \<not> isGameOver (state scissorsGame)
   \<and> pickedItemIndex (specialItems (state scissorsGame)) (movePoint UP (Point 15 15)) = Some 0
   \<and> type (specialItems (state scissorsGame) ! 0) = SCISSORS
   \<and> step zeroRng 0 UP scissorsGame = Inr (40, cutGame, 0)
   \<and> length (snake (state cutGame)) = 4"
  by (simp add: scissorsGame_def cutGame_def run_defs applyItem_def popN_def)

section \<open>Goal and items on one cell\<close>

text \<open>
  Claim C8, as amended. Goal and items are kept apart only where a placement names the
  other. After every step that neither ends the episode nor enters the portal: a goal that
  was not consumed stays where it was; a consumed goal moves to the outcome of the random
  open-cell selection, which is the first accepted sample, a cell that held no item before
  the step, or the fallback \<open>(0, 0)\<close> when all 500 samples were rejected; and every item on
  the board was there before the step or lies on the outcome of the selection made for
  the spawn, which is the first accepted sample, an open cell off the new body that held
  no item before the step, or \<open>(0, 0)\<close> when all 500 samples were rejected. Nothing keeps a
  spawned item off the goal cell, and nothing keeps the fallback off an item.
\<close>

theorem step_placement:
  assumes live: "\<not> isGameOver (state g)"
    and sn: "snake (state g) = h0 # body"
    and alive: "\<not> deathCheck g (tick (state g)) (movePoint d h0)"
    and noportal: "\<not> (portalOpen (state g) \<and> portalPoint (state g) = Some (movePoint d h0))"
  shows "\<exists>r g' c'. step rnd c d g = Inr (r, g', c')
     \<and> (let its = spliced (specialItems (state g)) (movePoint d h0);
             ns = snake (state g');
             opens = (itemsCollectedInLevel (state g) + 1 \<ge> LEVEL_GOAL \<and>
                      \<not> portalOpen (state g));
             cf = (if opens then snd (sampleLoop rnd (wallMap g) ns its 0 c) else c);
             c1 = (if movePoint d h0 = food (state g)
                   then snd (sampleLoop rnd (wallMap g) ns its 0 cf) else c)
         in (if movePoint d h0 = food (state g)
             then placed rnd cf (wallMap g) ns its (food (state g')) \<and>
                  (fst (sampleLoop rnd (wallMap g) ns its 0 cf) = None \<or>
                   food (state g') \<notin> set (map point (specialItems (state g))))
             else food (state g') = food (state g))
            \<and> list_all
                 (\<lambda>it. it \<in> set (specialItems (state g)) \<or>
                    (placed rnd (c1 + 2) (wallMap g) ns its (point it) \<and>
                     (fst (sampleLoop rnd (wallMap g) ns its 0 (c1 + 2)) = None \<or>
                      point it \<notin> set (map point (specialItems (state g))))))
                 (specialItems (state g')))"
proof -
  let ?h = "movePoint d h0"
  let ?its = "spliced (specialItems (state g)) ?h"
  obtain sA nsA rA where pk: "pickItem ?h (tick (state g), ?h # h0 # body, - 0.05) = (sA, nsA, rA)"
    by (cases "pickItem ?h (tick (state g), ?h # h0 # body, - 0.05)") auto
  note pr = pickItem_result [OF pk, unfolded tick_frame]
  obtain zs where nsA: "nsA = ?h # h0 # zs"
    using pr shrunk_Cons2 [of "specialItems (state g)" ?h ?h h0 body] by auto
  have eqs: "specialItems sA = ?its"
    "itemsCollectedInLevel sA = itemsCollectedInLevel (state g)"
    "portalOpen sA = portalOpen (state g)"
    using pr by simp_all
  have avoid: "fst (sampleLoop rnd (wallMap g) ns ?its 0 k) = None \<or>
      p \<notin> set (map point (specialItems (state g)))"
    if "placed rnd k (wallMap g) ns ?its p" "?h \<in> set ns" for k ns p
  proof -
    from placed_open [OF that(1)] show ?thesis
    proof
      assume "fst (sampleLoop rnd (wallMap g) ns ?its 0 k) = None"
      then show ?thesis
        by simp
    next
      assume a: "openCell (wallMap g) ns p \<and> p \<notin> set (map point ?its)"
      with that(2) have "p \<noteq> ?h"
        by (auto simp: openCell_def)
      with a not_on_items [of p "specialItems (state g)" ?h] show ?thesis
        by simp
    qed
  qed
  have items_step: "list_all
        (\<lambda>it. it \<in> set (specialItems (state g)) \<or>
           (placed rnd (k + 2) (wallMap g) ns ?its (point it) \<and>
            (fst (sampleLoop rnd (wallMap g) ns ?its 0 (k + 2)) = None \<or>
             point it \<notin> set (map point (specialItems (state g))))))
        (filter (\<lambda>i. expires i > steps sC) (specialItems sC))"
    if sp: "spawnItem rnd k (wallMap g) ns sB = (sC, c2)"
      and itemsB: "specialItems sB = ?its" and hin: "?h \<in> set ns" for k ns sB sC c2
    unfolding list_all_iff
  proof
    fix it
    assume "it \<in> set (filter (\<lambda>i. expires i > steps sC) (specialItems sC))"
    then have "it \<in> set (specialItems sC)"
      by simp
    with spawnItem_items [OF sp] itemsB
    have "it \<in> set ?its \<or> placed rnd (k + 2) (wallMap g) ns ?its (point it)"
      by (auto simp: list_all_iff)
    then show "it \<in> set (specialItems (state g)) \<or>
           (placed rnd (k + 2) (wallMap g) ns ?its (point it) \<and>
            (fst (sampleLoop rnd (wallMap g) ns ?its 0 (k + 2)) = None \<or>
             point it \<notin> set (map point (specialItems (state g)))))"
    proof
      assume "it \<in> set ?its"
      with spliced_subset [of "specialItems (state g)" ?h] show ?thesis
        by auto
    next
      assume p: "placed rnd (k + 2) (wallMap g) ns ?its (point it)"
      with avoid [OF p hin] show ?thesis
        by simp
    qed
  qed
  show ?thesis
  proof (cases "?h = food (state g)")
    case True
    with pr have hf: "?h = food sA"
      by simp
    let ?cf = "if itemsCollectedInLevel (state g) + 1 \<ge> LEVEL_GOAL \<and> \<not> portalOpen (state g)
               then snd (sampleLoop rnd (wallMap g) nsA ?its 0 c) else c"
    from consumeGoal_goal [OF hf, of rnd c "wallMap g" nsA rA, unfolded Let_def eqs]
    obtain sB c1
      where cg: "consumeGoal rnd c (wallMap g) ?h (sA, nsA, rA) = ((sB, nsA, 30), c1)"
        and itemsB: "specialItems sB = ?its"
        and c1: "c1 = snd (sampleLoop rnd (wallMap g) nsA ?its 0 ?cf)"
        and fd: "placed rnd ?cf (wallMap g) nsA ?its (food sB)"
      by blast
    obtain sC c2 where sp: "spawnItem rnd c1 (wallMap g) nsA sB = (sC, c2)"
      by (cases "spawnItem rnd c1 (wallMap g) nsA sB")
    note sf = spawnItem_frame [OF sp]
    define g' where "g' = g\<lparr> state := sC\<lparr> specialItems :=
        filter (\<lambda>i. expires i > steps sC) (specialItems sC), snake := nsA \<rparr> \<rparr>"
    have st: "step rnd c d g = Inr (30, g', c2)"
      using step_live [OF live sn alive noportal, of rnd c] pk cg sp
      by (simp add: Let_def g'_def)
    have hin: "?h \<in> set nsA"
      using nsA by simp
    have g'facts: "food (state g') = food sB" "snake (state g') = nsA"
      "specialItems (state g') = filter (\<lambda>i. expires i > steps sC) (specialItems sC)"
      using sf by (simp_all add: g'_def)
    note goalpart = avoid [OF fd hin]
    note itempart = items_step [OF sp itemsB hin, unfolded c1]
    show ?thesis
      apply (rule exI [where x = "30::real"])
      apply (rule exI [where x = g'])
      apply (rule exI [where x = c2])
      unfolding Let_def g'facts
      using st fd goalpart itempart True
      apply simp
      done
  next
    case False
    with pr have hf: "?h \<noteq> food sA"
      by simp
    have cg: "consumeGoal rnd c (wallMap g) ?h (sA, nsA, rA) = ((sA, butlast nsA, rA), c)"
      using consumeGoal_other [OF hf] by simp
    obtain sC c2 where sp: "spawnItem rnd c (wallMap g) (butlast nsA) sA = (sC, c2)"
      by (cases "spawnItem rnd c (wallMap g) (butlast nsA) sA")
    note sf = spawnItem_frame [OF sp]
    define g' where "g' = g\<lparr> state := sC\<lparr> specialItems :=
        filter (\<lambda>i. expires i > steps sC) (specialItems sC), snake := butlast nsA \<rparr> \<rparr>"
    have st: "step rnd c d g = Inr (rA, g', c2)"
      using step_live [OF live sn alive noportal, of rnd c] pk cg sp
      by (simp add: Let_def g'_def)
    have hin: "?h \<in> set (butlast nsA)"
      using nsA by simp
    have g'facts: "food (state g') = food (state g)" "snake (state g') = butlast nsA"
      "specialItems (state g') = filter (\<lambda>i. expires i > steps sC) (specialItems sC)"
      using sf pr by (simp_all add: g'_def)
    note itempart = items_step [OF sp eqs(1) hin]
    show ?thesis
      apply (rule exI [where x = rA])
      apply (rule exI [where x = g'])
      apply (rule exI [where x = c2])
      unfolding Let_def g'facts
      using st itempart False
      apply simp
      done
  qed
qed

theorem step_placement_witness:
  "\<not> isGameOver (state preSpawnGame)
   \<and> snake (state preSpawnGame) = Point 14 14 # [Point 14 15, Point 15 15]
   \<and> \<not> deathCheck preSpawnGame (tick (state preSpawnGame)) (movePoint RIGHT (Point 14 14))
   \<and> \<not> (portalOpen (state preSpawnGame) \<and>
          portalPoint (state preSpawnGame) = Some (movePoint RIGHT (Point 14 14)))
   \<and> movePoint RIGHT (Point 14 14) = Point 15 14
   \<and> step spawnRng 2 RIGHT preSpawnGame = Inr (- 0.05, spawnedGame, 6)
   \<and> map point (specialItems (state spawnedGame)) = [Point 16 14]
   \<and> (\<exists>r g' c'. step spawnRng 2 RIGHT preSpawnGame = Inr (r, g', c')
     \<and> (let its = spliced (specialItems (state preSpawnGame)) (Point 15 14);
             ns = snake (state g');
             opens = (itemsCollectedInLevel (state preSpawnGame) + 1 \<ge> LEVEL_GOAL \<and>
                      \<not> portalOpen (state preSpawnGame));
             cf = (if opens then snd (sampleLoop spawnRng (wallMap preSpawnGame) ns its 0 2) else 2);
             c1 = (if Point 15 14 = food (state preSpawnGame)
                   then snd (sampleLoop spawnRng (wallMap preSpawnGame) ns its 0 cf) else 2)
         in (if Point 15 14 = food (state preSpawnGame)
             then placed spawnRng cf (wallMap preSpawnGame) ns its (food (state g')) \<and>
                  (fst (sampleLoop spawnRng (wallMap preSpawnGame) ns its 0 cf) = None \<or>
                   food (state g') \<notin> set (map point (specialItems (state preSpawnGame))))
             else food (state g') = food (state preSpawnGame))
            \<and> list_all
                 (\<lambda>it. it \<in> set (specialItems (state preSpawnGame)) \<or>
                    (placed spawnRng (c1 + 2) (wallMap preSpawnGame) ns its (point it) \<and>
                     (fst (sampleLoop spawnRng (wallMap preSpawnGame) ns its 0 (c1 + 2)) = None \<or>
                      point it \<notin> set (map point (specialItems (state preSpawnGame))))))
                 (specialItems (state g'))))"
proof -
  have h1: "\<not> isGameOver (state preSpawnGame)"
    and h2: "snake (state preSpawnGame) = Point 14 14 # [Point 14 15, Point 15 15]"
    and h4: "\<not> (portalOpen (state preSpawnGame) \<and>
          portalPoint (state preSpawnGame) = Some (movePoint RIGHT (Point 14 14)))"
    and h5: "movePoint RIGHT (Point 14 14) = Point 15 14"
    and h6: "map point (specialItems (state spawnedGame)) = [Point 16 14]"
    by (simp_all add: preSpawnGame_def spawnedGame_def freshState_def movePoint_def)
  have h3: "\<not> deathCheck preSpawnGame (tick (state preSpawnGame))
      (movePoint RIGHT (Point 14 14))"
    by (simp add: deathCheck_def tick_def preSpawnGame_def freshState_def
        movePoint_def GRID_SIZE_def maxSteps_def wallAt_empty)
  note inst = step_placement [OF h1 h2 h3 h4, of spawnRng 2, unfolded h5]
  from inst h1 h2 h3 h4 h5 h6 step_spawn show ?thesis
    by blast
qed

text \<open>
  The claim as stated fails, by a spawn and by the fallback. The game reached from
  construction by the 75 moves of \<open>moves75\<close> under \<open>spawnRng\<close> has a \<open>GOLD\<close> item on its goal
  cell \<open>(16, 14)\<close>, and the next move to the right consumes the item and the goal in one
  step (score 0 to 16). Under \<open>originRng\<close> the same moves spawn the item on \<open>(0, 0)\<close>; the
  next move consumes the goal, all 500 samples of its relocation are the item cell, and
  the fallback puts the goal on the item.
\<close>

theorem item_on_goal_counterexample:
  "newSnakeGame spawnRng 0 1 = (startGame, 2)
   \<and> play spawnRng moves75 startGame 2 = Inr (spawnedGame, 6)
   \<and> food (state spawnedGame) = Point 16 14
   \<and> map point (specialItems (state spawnedGame)) = [Point 16 14]
   \<and> play spawnRng (moves75 @ [RIGHT]) startGame 2 = Inr (feastGame, 8)
   \<and> specialItems (state feastGame) = []
   \<and> score (state feastGame) = score (state spawnedGame) + 15 + 1
   \<and> newSnakeGame originRng 0 1 = (startGame, 2)
   \<and> play originRng (moves75 @ [RIGHT]) startGame 2 = Inr (fallbackGame, 1006)
   \<and> food (state fallbackGame) = Point 0 0
   \<and> map point (specialItems (state fallbackGame)) = [Point 0 0]"
proof -
  have a: "play spawnRng (moves75 @ [RIGHT]) startGame 2 = Inr (feastGame, 8)"
    using play_append [of spawnRng moves75 "[RIGHT]" startGame 2]
    by (simp add: play_moves75 step_feast)
  have b: "play originRng (moves75 @ [RIGHT]) startGame 2 = Inr (fallbackGame, 1006)"
    using play_append [of originRng moves75 "[RIGHT]" startGame 2]
    by (simp add: origin_play_moves75 origin_step_fallback)
  from a b new_game play_moves75 origin_new_game show ?thesis
    by (simp add: spawnedGame_def feastGame_def fallbackGame_def freshState_def)
qed

section \<open>Restoring persisted state\<close>

lemma parseFloat_abc: "parseFloat ''abc'' = NaN"
  by (simp add: parseFloat_def splitSign_def isWhite_def isDigit_def digitsVal_def exponentOf_def)

lemma parseFloat_decimal: "parseFloat ''0.999997'' = Num 0.999997"
  by (simp add: parseFloat_def splitSign_def isWhite_def isDigit_def digitsVal_def exponentOf_def)

lemma parseInt10_many: "parseInt10 ''many'' = NaN"
  by (simp add: parseInt10_def splitSign_def isWhite_def isDigit_def digitsVal_def)

lemma parseInt10_decimal: "parseInt10 ''1535055'' = Num 1535055"
  by (simp add: parseInt10_def splitSign_def isWhite_def isDigit_def digitsVal_def)

text \<open>
  What holds of the claim: the call always returns (exceptions of \<open>JSON.parse\<close> and of
  \<open>Object.entries\<close> are caught), and a table text that does not parse leaves the table as it
  was and is logged.
\<close>

lemma loadFromStorage_syntax_error:
  "truthy (qs_v6_qtable store) \<Longrightarrow> JSON_parse (the (qs_v6_qtable store)) = Inl e \<Longrightarrow>
   rt_qTable (fst (loadFromStorage JSON_parse store f)) = rt_qTable f
   \<and> snd (loadFromStorage JSON_parse store f) = [''Failed to load QTable'']"
  by (simp add: loadFromStorage_def Let_def)

text \<open>A table text that parses to a value of another shape is stored as it is.\<close>

lemma loadFromStorage_wrong_shape:
  "truthy (qs_v6_qtable store) \<Longrightarrow>
   JSON_parse (the (qs_v6_qtable store)) = Inr (JObject [(''a'', JString ''x'')]) \<Longrightarrow>
   rt_qTable (fst (loadFromStorage JSON_parse store f)) ''a'' = Some (JString ''x'')"
  by (simp add: loadFromStorage_def Let_def Object_entries_def newMap_def)

text \<open>
  Claim C9. The claim says that malformed scalar fields leave the exploration rate at 1.0
  and the lifetime step count at 0. The code assigns the results of \<open>parseFloat\<close> and
  \<open>parseInt\<close> unchecked: restoring the payload \<open>brokenStore\<close> into a new agent sets both
  fields to \<open>NaN\<close>, and nothing is logged.
\<close>

theorem loadFromStorage_malformed_scalars:
  "loadFromStorage JSON_parse brokenStore defaultFields =
     (defaultFields\<lparr> rt_epsilon := NaN, rt_totalStepsEver := NaN \<rparr>, [])
   \<and> rt_epsilon defaultFields = Num 1 \<and> rt_totalStepsEver defaultFields = Num 0"
  by (simp add: loadFromStorage_def brokenStore_def truthy_def parseFloat_abc parseInt10_many
      defaultFields_def)

section \<open>Obstacle generation\<close>

text \<open>Enclosures of \<open>pi\<close> (by Machin's formula) and of the sine (by its Taylor polynomial).\<close>

lemma arctan_enclosure:
  fixes x :: real
  assumes "0 < x" "x \<le> 1"
  shows "(\<Sum>k<2 * n. (- 1) ^ k * (1 / real (k * 2 + 1) * x ^ (k * 2 + 1))) \<le> arctan x"
    and "arctan x \<le> (\<Sum>k<2 * n + 1. (- 1) ^ k * (1 / real (k * 2 + 1) * x ^ (k * 2 + 1)))"
proof -
  let ?a = "\<lambda>k. 1 / real (k * 2 + 1) * x ^ (k * 2 + 1)"
  have ax: "\<bar>x\<bar> \<le> 1"
    using assms by simp
  have pos: "0 < ?a 0"
    using assms by simp
  from summable_Leibniz(2) [OF zeroseq_arctan_series [OF ax] monoseq_arctan_series [OF ax]] pos
  have "(\<Sum>i. (- 1) ^ i * ?a i) \<in> {\<Sum>i<2 * n. (- 1) ^ i * ?a i .. \<Sum>i<2 * n + 1. (- 1) ^ i * ?a i}"
    by blast
  then show "(\<Sum>k<2 * n. (- 1) ^ k * ?a k) \<le> arctan x"
    and "arctan x \<le> (\<Sum>k<2 * n + 1. (- 1) ^ k * ?a k)"
    by (simp_all add: arctan_series [OF ax])
qed

lemma pi_enclosure: "314159265358 / 10 ^ 11 < pi" "pi < 31415926536 / 10 ^ 10"
proof -
  have m: "pi = 16 * arctan (1 / 5) - 4 * arctan (1 / 239)"
    using machin by simp
  have l5: "(\<Sum>k<2 * 4. (- 1) ^ k * (1 / real (k * 2 + 1) * (1 / 5) ^ (k * 2 + 1))) \<le> arctan (1 / 5)"
    by (rule arctan_enclosure) simp_all
  have u5: "arctan (1 / 5) \<le> (\<Sum>k<2 * 4 + 1. (- 1) ^ k * (1 / real (k * 2 + 1) * (1 / 5) ^ (k * 2 + 1)))"
    by (rule arctan_enclosure) simp_all
  have l239: "(\<Sum>k<2 * 1. (- 1) ^ k * (1 / real (k * 2 + 1) * (1 / 239) ^ (k * 2 + 1))) \<le> arctan (1 / 239)"
    by (rule arctan_enclosure) simp_all
  have u239: "arctan (1 / 239) \<le> (\<Sum>k<2 * 1 + 1. (- 1) ^ k * (1 / real (k * 2 + 1) * (1 / 239) ^ (k * 2 + 1)))"
    by (rule arctan_enclosure) simp_all
  show "314159265358 / 10 ^ 11 < pi"
    unfolding m using l5 u239 by (simp add: eval_nat_numeral)
  show "pi < 31415926536 / 10 ^ 10"
    unfolding m using u5 l239 by (simp add: eval_nat_numeral)
qed

lemma sum_lessThan_14:
  fixes f :: "nat \<Rightarrow> real"
  shows "(\<Sum>m<14. f m) =
     f 0 + f 1 + f 2 + f 3 + f 4 + f 5 + f 6 + f 7 + f 8 + f 9 + f 10 + f 11 + f 12 + f 13"
  by (simp add: eval_nat_numeral)

lemma sin_coeff_values:
  "sin_coeff (Suc 0) = 1" "sin_coeff 2 = 0" "sin_coeff 3 = - 1 / 6" "sin_coeff 4 = 0"
  "sin_coeff 5 = 1 / 120" "sin_coeff 6 = 0" "sin_coeff 7 = - 1 / 5040" "sin_coeff 8 = 0"
  "sin_coeff 9 = 1 / 362880" "sin_coeff 10 = 0" "sin_coeff 11 = - 1 / 39916800"
  "sin_coeff 12 = 0" "sin_coeff 13 = 1 / 6227020800"
  by (simp_all add: sin_coeff_def fact_numeral)

lemma sinPoly_eq: "(\<Sum>m<14. sin_coeff m * x ^ m) = sinPoly x"
  by (simp add: sum_lessThan_14 sin_coeff_values sinPoly_def)

lemma fact_14: "(fact 14 :: real) = 87178291200"
  by (simp add: fact_numeral)

lemma sin_enclosure:
  "sinPoly x - \<bar>x\<bar> ^ 14 / 87178291200 \<le> sin x" "sin x \<le> sinPoly x + \<bar>x\<bar> ^ 14 / 87178291200"
proof -
  have "\<bar>sin x - (\<Sum>m<14. sin_coeff m * x ^ m)\<bar> \<le> inverse (fact 14) * \<bar>x\<bar> ^ 14"
    by (rule Maclaurin_sin_bound)
  then have "\<bar>sin x - sinPoly x\<bar> \<le> inverse 87178291200 * \<bar>x\<bar> ^ 14"
    by (simp only: sinPoly_eq fact_14)
  then have b: "\<bar>sin x - sinPoly x\<bar> \<le> \<bar>x\<bar> ^ 14 / 87178291200"
    by (simp only: divide_inverse mult.commute)
  from b show "sinPoly x - \<bar>x\<bar> ^ 14 / 87178291200 \<le> sin x"
    by (simp only: abs_le_iff) linarith
  from b show "sin x \<le> sinPoly x + \<bar>x\<bar> ^ 14 / 87178291200"
    by (simp only: abs_le_iff) linarith
qed

lemma frac_window:
  fixes y :: real
  assumes "of_int N \<le> y" "y < of_int N + d" "d \<le> 1"
  shows "frac y < d"
proof -
  have "\<lfloor>y\<rfloor> = N"
    using assms by (intro floor_unique) auto
  then show ?thesis
    using assms by (simp add: frac_def)
qed

lemma sin_shift: "sin (r + real n * pi) = (- 1) ^ n * sin r"
  by (simp add: sin_add)

lemma hash_window:
  fixes t r a b C d :: real
  assumes t: "t = r + real n * pi"
    and ab: "a \<le> r" "r \<le> b" "0 \<le> a" "b \<le> 1"
    and lo: "of_int N \<le> (sinPoly a - \<bar>a\<bar> ^ 14 / 87178291200) * C"
    and hi: "(sinPoly b + \<bar>b\<bar> ^ 14 / 87178291200) * C < of_int N + d"
    and C: "0 \<le> C" and d: "d \<le> 1"
  shows "frac \<bar>sin t * C\<bar> < d"
proof -
  have half: "1 \<le> pi / 2"
    using pi_ge_two by simp
  have "sin a \<le> sin r"
    using ab half by (intro sin_monotone_2pi_le) auto
  with sin_enclosure(1) [of a] have la: "sinPoly a - \<bar>a\<bar> ^ 14 / 87178291200 \<le> sin r"
    by linarith
  have "sin r \<le> sin b"
    using ab half by (intro sin_monotone_2pi_le) auto
  with sin_enclosure(2) [of b] have ub: "sin r \<le> sinPoly b + \<bar>b\<bar> ^ 14 / 87178291200"
    by linarith
  have nonneg: "0 \<le> sin r"
    using ab half by (intro sin_ge_zero) auto
  have "\<bar>sin t * C\<bar> = sin r * C"
    using nonneg C by (simp add: t sin_shift abs_mult power_abs)
  moreover have "of_int N \<le> sin r * C"
    using lo la C by (meson mult_right_mono order_trans)
  moreover have "sin r * C < of_int N + d"
    using hi ub C by (meson mult_right_mono le_less_trans)
  ultimately show ?thesis
    using d by (simp add: frac_window)
qed

text \<open>At level 8 the values of the cells \<open>(12, 15)\<close> and \<open>(18, 13)\<close> are below the threshold.\<close>

lemma sinVal_8_12_15: "sinVal 8 12 15 < density 8"
proof -
  define r where "r = 6711583 / 5000 - real 427 * pi"
  have t: "(6711583 / 5000 :: real) = r + real 427 * pi"
    by (simp add: r_def)
  have a: "85653691 / 10 ^ 8 \<le> r"
    using pi_enclosure(2) by (simp add: r_def)
  have b: "r \<le> 85653693 / 10 ^ 8"
    using pi_enclosure(1) by (simp add: r_def)
  have "frac \<bar>sin (6711583 / 5000) * 43758.5453\<bar> < (0.0508 :: real)"
    by (rule hash_window [OF t a b, where N = 33063]) (simp_all add: sinPoly_def power_divide)
  then show ?thesis
    by (simp add: sinVal_def density_def maxDensity_def)
qed

lemma sinVal_8_18_13: "sinVal 8 18 13 < density 8"
proof -
  define r where "r = 6318947 / 5000 - real 402 * pi"
  have t: "(6318947 / 5000 :: real) = r + real 402 * pi"
    by (simp add: r_def)
  have a: "3476613 / 4000000 \<le> r"
    using pi_enclosure(2) by (simp add: r_def)
  have b: "r \<le> 86915327 / 10 ^ 8"
    using pi_enclosure(1) by (simp add: r_def)
  have "frac \<bar>sin (6318947 / 5000) * 43758.5453\<bar> < (0.0508 :: real)"
    by (rule hash_window [OF t a b, where N = 33422]) (simp_all add: sinPoly_def power_divide)
  then show ?thesis
    by (simp add: sinVal_def density_def maxDensity_def)
qed

lemma density_bounds:
  "density lvl \<le> 0.15" "density lvl \<le> density (lvl + 1)"
  "density (lvl + 1) \<le> density lvl + 0.0001"
  by (simp_all add: density_def maxDensity_def min_def add_divide_distrib)

lemma getLevelWalls_procedural:
  "4 \<le> lvl \<Longrightarrow>
   Point i j \<in> set (getLevelWalls lvl) \<longleftrightarrow>
     0 \<le> i \<and> i < 30 \<and> 0 \<le> j \<and> j < 30 \<and> \<not> (13 \<le> i \<and> i \<le> 17 \<and> 13 \<le> j \<and> j \<le> 17)
     \<and> sinVal lvl i j < density lvl"
  by (auto simp: getLevelWalls_def GRID_SIZE_def split: if_splits)

text \<open>
  Claim C7, as amended. For every level from 4 on, the generated obstacles contain no cell
  of the 5 x 5 safe zone around the spawn (the cells 13 to 17 on both axes, which are those
  with \<open>|x - 15| < 3\<close> and \<open>|y - 15| < 3\<close>), and a cell of the board outside that zone is an
  obstacle exactly when its value derived from \<open>(level, x, y)\<close> is below the density
  threshold. The threshold is at most 0.15 at every level, never falls from one level to
  the next and rises by at most 0.0001 per level.
\<close>

theorem getLevelWalls_safe_zone:
  "4 \<le> lvl \<Longrightarrow>
   (Point i j \<in> set (getLevelWalls lvl) \<longleftrightarrow>
      0 \<le> i \<and> i < 30 \<and> 0 \<le> j \<and> j < 30 \<and> \<not> (13 \<le> i \<and> i \<le> 17 \<and> 13 \<le> j \<and> j \<le> 17)
      \<and> sinVal lvl i j < density lvl)
   \<and> density lvl \<le> 0.15 \<and> density lvl \<le> density (lvl + 1)
   \<and> density (lvl + 1) \<le> density lvl + 0.0001"
  using getLevelWalls_procedural [of lvl i j] density_bounds [of lvl] by simp

theorem getLevelWalls_safe_zone_witness:
  "(4::int) \<le> 8
   \<and> (Point 15 15 \<in> set (getLevelWalls 8) \<longleftrightarrow>
      (0::int) \<le> 15 \<and> (15::int) < 30 \<and> (0::int) \<le> 15 \<and> (15::int) < 30
      \<and> \<not> ((13::int) \<le> 15 \<and> (15::int) \<le> 17 \<and> (13::int) \<le> 15 \<and> (15::int) \<le> 17)
      \<and> sinVal 8 15 15 < density 8)
   \<and> Point 15 15 \<notin> set (getLevelWalls 8)
   \<and> density 8 \<le> 0.15 \<and> density 8 \<le> density (8 + 1)
   \<and> density (8 + 1) \<le> density 8 + 0.0001"
  using getLevelWalls_safe_zone [of 8 15 15] by simp

text \<open>
  The claim as stated fails: the zone that stays free has 5 x 5 cells, not 6 x 6. At level 8
  the cells \<open>(12, 15)\<close> and \<open>(18, 13)\<close> are obstacles, and each of the four blocks of 6 x 6
  cells around the spawn contains one of them.
\<close>

theorem getLevelWalls_safe_zone_counterexample:
  "Point 12 15 \<in> set (getLevelWalls 8) \<and> Point 18 13 \<in> set (getLevelWalls 8)
   \<and> block6 12 12 (Point 12 15) \<and> block6 12 13 (Point 12 15)
   \<and> block6 13 12 (Point 18 13) \<and> block6 13 13 (Point 18 13)
   \<and> block6 12 12 (Point 15 15) \<and> block6 12 13 (Point 15 15)
   \<and> block6 13 12 (Point 15 15) \<and> block6 13 13 (Point 15 15)"
  using getLevelWalls_procedural [of 8 12 15] getLevelWalls_procedural [of 8 18 13]
    sinVal_8_12_15 sinVal_8_18_13
  by (simp add: block6_def)

end
